theory Spec2Isabelle
  imports Complex_Main "HOL-Library.Product_Lexorder"
begin

section \<open>Python values and exceptions\<close>

text \<open>
  The programs exchange JSON documents and MongoDB documents.  The documents of the
  model hold Python \<open>None\<close>, strings, integers and dictionaries with string keys.  A
  dictionary is an association list; \<open>d.get(k, default)\<close> is \<open>dict_get\<close>, and \<open>bool(v)\<close>
  is \<open>truthy\<close>.
  A string is a list of characters with the codes 0 to 255, the first 256 code points
  of Unicode.
\<close>

datatype pyval =
    PNone
  | PStr string
  | PInt int
  | PDict "(string \<times> pyval) list"

type_synonym pydict = "(string \<times> pyval) list"

text \<open>
  A single value decoded from JSON can be of every kind that JSON has: a boolean, a float
  or a list as well.  A float is a finite double, an infinity or a NaN; \<open>Double m e\<close> is
  the double \<open>m * 2 ^ e\<close>.
\<close>

datatype double = Double int int

datatype pyfloat = Finite double | PosInf | NegInf | NaN

datatype json =
    JNone
  | JBool bool
  | JInt int
  | JFloat pyfloat
  | JStr string
  | JList "json list"
  | JDict "(string \<times> json) list"

fun truthy :: "pyval \<Rightarrow> bool" where
  "truthy PNone = False"
| "truthy (PStr s) = (s \<noteq> [])"
| "truthy (PInt n) = (n \<noteq> 0)"
| "truthy (PDict kvs) = (kvs \<noteq> [])"

definition dict_get :: "pydict \<Rightarrow> string \<Rightarrow> pyval \<Rightarrow> pyval" where
  "dict_get d k dflt = (case map_of d k of None \<Rightarrow> dflt | Some v \<Rightarrow> v)"

text \<open>
  The exceptions that the modelled code can raise.  \<open>RetryError e\<close> is tenacity's
  wrapper around the exception \<open>e\<close> of the last attempt.
\<close>

datatype exn =
    ReadTimeout
  | HTTPStatusError
  | UnboundLocalError
  | ValueError
  | TypeError
  | AttributeError
  | KeyError
  | OverflowError
  | ZeroDivisionError
  | DuplicateKeyError
  | OtherException string
  | RetryError exn

text \<open>
  The classes above are subclasses of \<open>Exception\<close>.  What a statement raises is a
  \<open>BaseException\<close>: an instance of \<open>Exception\<close>, or one of the exceptions outside it,
  which a handler \<open>except Exception\<close> does not take: \<open>asyncio.CancelledError\<close>, raised
  at an \<open>await\<close> when the task is cancelled, \<open>KeyboardInterrupt\<close> and \<open>SystemExit\<close>.
  \<open>is_exception b\<close> is \<open>isinstance(b, Exception)\<close>.
\<close>

datatype base_exception =
    Exception exn
  | CancelledError
  | KeyboardInterrupt
  | SystemExit

fun is_exception :: "base_exception \<Rightarrow> bool" where
  "is_exception (Exception e) = True"
| "is_exception b = False"

section \<open>models/data_models.py\<close>

text \<open>The enumeration \<open>StageStatus\<close>, its members in declaration order.\<close>

datatype StageStatus =
    TRYING_TO_CONTACT
  | TOOK_APP
  | REC_DOCS_LENDER_CALL
  | FINANCIAL_SCHED
  | COMPLIANCE_SCHED
  | PENDING_PAYMENT
  | PAID
  | SUBMITTED_TO_PROCESSING

text \<open>The member's \<open>.value\<close>.\<close>

fun stage_value :: "StageStatus \<Rightarrow> int" where
  "stage_value TRYING_TO_CONTACT = 0"
| "stage_value TOOK_APP = 1"
| "stage_value REC_DOCS_LENDER_CALL = 2"
| "stage_value FINANCIAL_SCHED = 3"
| "stage_value COMPLIANCE_SCHED = 4"
| "stage_value PENDING_PAYMENT = 5"
| "stage_value PAID = 6"
| "stage_value SUBMITTED_TO_PROCESSING = 7"

text \<open>
  The dictionary \<open>descriptions\<close> of the property \<open>description\<close>, and the property
  itself: \<open>descriptions[self.value]\<close> raises \<open>KeyError\<close> on a key that is not there.
\<close>

definition descriptions :: "(int \<times> string) list" where
  "descriptions =
    [(0, ''Trying to Contact''),
     (1, ''Took App''),
     (2, ''Rec Docs - Lender Call''),
     (3, ''Financial Sched''),
     (4, ''Compliance Shed''),
     (5, ''Pending Payment''),
     (6, ''PAID''),
     (7, ''Sub'd to Processing'')]"

definition description :: "StageStatus \<Rightarrow> exn + string" where
  "description s =
    (case map_of descriptions (stage_value s) of
       None \<Rightarrow> Inl KeyError
     | Some d \<Rightarrow> Inr d)"

text \<open>
  \<open>StageStatus.from_number(number)\<close> is \<open>cls(number)\<close>: the enumeration's lookup by
  value, which returns the member whose value equals \<open>number\<close> and raises
  \<open>ValueError\<close> when there is none.  The argument is the \<open>stage_order_nr\<close> of a deal,
  any value decoded from JSON.  \<open>equals_int number n\<close> is \<open>n == number\<close> for an integer
  \<open>n\<close>: Python compares an integer with a float exactly, \<open>True\<close> and \<open>False\<close> are the
  integers 1 and 0, and no integer equals \<open>None\<close>, a string, a list or a dictionary.
  Equal numbers have equal hashes, so the lookup in the table of the values and the
  search through the members, which is made for a value that cannot be hashed, find the
  same member.
\<close>

definition members :: "StageStatus list" where
  "members =
    [TRYING_TO_CONTACT, TOOK_APP, REC_DOCS_LENDER_CALL, FINANCIAL_SCHED,
     COMPLIANCE_SCHED, PENDING_PAYMENT, PAID, SUBMITTED_TO_PROCESSING]"

fun equals_int :: "json \<Rightarrow> int \<Rightarrow> bool" where
  "equals_int (JInt k) n = (k = n)"
| "equals_int (JBool b) n = ((if b then 1 else 0) = n)"
| "equals_int (JFloat (Finite (Double m e))) n =
    (if 0 \<le> e then m * 2 ^ nat e = n else m = n * 2 ^ nat (- e))"
| "equals_int number n = False"

definition from_number :: "json \<Rightarrow> exn + StageStatus" where
  "from_number number =
    (case find (\<lambda>m. equals_int number (stage_value m)) members of
       None \<Rightarrow> Inl ValueError
     | Some m \<Rightarrow> Inr m)"

text \<open>\<open>to_dict\<close>: the dictionary with the keys \<open>value\<close> and \<open>description\<close>.\<close>

definition to_dict :: "StageStatus \<Rightarrow> exn + pyval" where
  "to_dict s =
    (case description s of
       Inl e \<Rightarrow> Inl e
     | Inr d \<Rightarrow> Inr (PDict [(''value'', PInt (stage_value s)), (''description'', PStr d)]))"

section \<open>Regular expressions and string methods of the Python library\<close>

text \<open>
  \<open>str.strip()\<close> removes leading and trailing whitespace.  Of the characters with codes
  below 256, Python counts as whitespace, for \<open>strip\<close> and for \<open>\s\<close> in a pattern, the
  codes 9 to 13, 28 to 31 and 32, the next-line character 133 and the no-break space 160.
  The digits of \<open>\d\<close> among them are \<open>0\<close> to \<open>9\<close>.
\<close>

definition is_space :: "char \<Rightarrow> bool" where
  "is_space c = ((of_char c :: nat) \<in> {9, 10, 11, 12, 13, 28, 29, 30, 31, 32, 133, 160})"

definition is_digit :: "char \<Rightarrow> bool" where
  "is_digit c = (48 \<le> (of_char c :: nat) \<and> (of_char c :: nat) \<le> 57)"

definition strip :: "string \<Rightarrow> string" where
  "strip s = rev (dropWhile is_space (rev (dropWhile is_space s)))"

definition startswith :: "string \<Rightarrow> string \<Rightarrow> bool" where
  "startswith s p = (take (length p) s = p)"

text \<open>
  \<open>s.replace(old, new)\<close> for a non-empty \<open>old\<close>: every occurrence of \<open>old\<close>, found
  from left to right without overlap, is replaced by \<open>new\<close>.
\<close>

function replace :: "string \<Rightarrow> string \<Rightarrow> string \<Rightarrow> string" where
  "replace old new [] = []"
| "replace old new (x # xs) =
    (if old \<noteq> [] \<and> take (length old) (x # xs) = old
     then new @ replace old new (drop (length old) (x # xs))
     else x # replace old new xs)"
  by pat_completeness auto
termination
  by (relation "measure (\<lambda>(old, new, s). length s)") auto

text \<open>
  The fragment of the \<open>re\<close> module's patterns that the programs use: character classes,
  the repetition \<open>+\<close> of a class, concatenation, alternation and named groups.
  \<open>rmatch r s\<close> lists the ways in which \<open>r\<close> matches at the start of \<open>s\<close>, in the order
  in which the backtracking matcher tries them (the first alternative first, the longest
  repetition first); each is the groups captured and the text that is left.
  \<open>re_match\<close> is \<open>pattern.match(s)\<close>: the first of them, which need not reach the end
  of \<open>s\<close>.
\<close>

datatype cls = Lit char | NotLit char | Digit | Space | Range char char

fun in_cls :: "cls \<Rightarrow> char \<Rightarrow> bool" where
  "in_cls (Lit c) x = (x = c)"
| "in_cls (NotLit c) x = (x \<noteq> c)"
| "in_cls Digit x = is_digit x"
| "in_cls Space x = is_space x"
| "in_cls (Range a b) x = ((of_char a :: nat) \<le> of_char x \<and> (of_char x :: nat) \<le> of_char b)"

datatype regex =
    Cls cls
  | PlusCls cls
  | Cat regex regex
  | Alt regex regex
  | Group string regex

fun plus_cls :: "cls \<Rightarrow> string \<Rightarrow> string list" where
  "plus_cls k [] = []"
| "plus_cls k (x # xs) = (if in_cls k x then plus_cls k xs @ [xs] else [])"

type_synonym captures = "(string \<times> string) list"

fun rmatch :: "regex \<Rightarrow> string \<Rightarrow> (captures \<times> string) list" where
  "rmatch (Cls k) s =
    (case s of [] \<Rightarrow> [] | x # xs \<Rightarrow> if in_cls k x then [([], xs)] else [])"
| "rmatch (PlusCls k) s = map (\<lambda>rest. ([], rest)) (plus_cls k s)"
| "rmatch (Cat r1 r2) s =
    concat (map (\<lambda>(c1, s1). map (\<lambda>(c2, s2). (c1 @ c2, s2)) (rmatch r2 s1)) (rmatch r1 s))"
| "rmatch (Alt r1 r2) s = rmatch r1 s @ rmatch r2 s"
| "rmatch (Group name r) s =
    map (\<lambda>(c, rest). ((name, take (length s - length rest) s) # c, rest)) (rmatch r s)"

definition re_match :: "regex \<Rightarrow> string \<Rightarrow> (captures \<times> string) option" where
  "re_match r s = (case rmatch r s of [] \<Rightarrow> None | m # _ \<Rightarrow> Some m)"

section \<open>Conversion to strings\<close>

text \<open>
  \<open>str(v)\<close> and \<open>repr(v)\<close> for the values of the model: decimal integers, \<open>None\<close>, and
  for a dictionary the display \<open>{'k': v, ...}\<close>.  \<open>repr\<close> of a string is quoted with
  single quotes, or with double quotes if the string holds a single quote and no double
  quote; the backslash, the enclosing quote, tab, newline and carriage return are
  escaped, and the other characters that are not printable (the codes below 32, 127 to
  160 and 173) are written \<open>\xNN\<close>.
\<close>

fun str_nat :: "nat \<Rightarrow> string" where
  "str_nat n =
    (if n < 10 then [''0123456789'' ! n]
     else str_nat (n div 10) @ [''0123456789'' ! (n mod 10)])"

declare str_nat.simps [simp del]

definition str_int :: "int \<Rightarrow> string" where
  "str_int i = (if i < 0 then CHR ''-'' # str_nat (nat (- i)) else str_nat (nat i))"

definition hex_digit :: "nat \<Rightarrow> char" where
  "hex_digit n = ''0123456789abcdef'' ! n"

definition repr_char :: "char \<Rightarrow> char \<Rightarrow> string" where
  "repr_char q c =
    (if c = CHR 0x5C then [CHR 0x5C, CHR 0x5C]
     else if c = q then [CHR 0x5C, q]
     else if c = CHR 0x09 then [CHR 0x5C, CHR ''t'']
     else if c = CHR 0x0A then [CHR 0x5C, CHR ''n'']
     else if c = CHR 0x0D then [CHR 0x5C, CHR ''r'']
     else if (of_char c :: nat) < 32 \<or> (127 \<le> (of_char c :: nat) \<and> (of_char c :: nat) \<le> 160)
             \<or> (of_char c :: nat) = 173
       then [CHR 0x5C, CHR ''x'', hex_digit (of_char c div 16), hex_digit (of_char c mod 16)]
     else [c])"

definition repr_str :: "string \<Rightarrow> string" where
  "repr_str s =
    (let q = (if CHR 0x27 \<in> set s \<and> CHR 0x22 \<notin> set s then CHR 0x22 else CHR 0x27)
     in [q] @ concat (map (repr_char q) s) @ [q])"

fun py_join :: "string \<Rightarrow> string list \<Rightarrow> string" where
  "py_join sep [] = []"
| "py_join sep [x] = x"
| "py_join sep (x # y # ys) = x @ sep @ py_join sep (y # ys)"

fun py_repr :: "pyval \<Rightarrow> string" where
  "py_repr PNone = ''None''"
| "py_repr (PStr s) = repr_str s"
| "py_repr (PInt i) = str_int i"
| "py_repr (PDict kvs) =
    ''{'' @ py_join '', '' (map (\<lambda>kv. repr_str (fst kv) @ '': '' @ py_repr (snd kv)) kvs) @ ''}''"

fun py_str :: "pyval \<Rightarrow> string" where
  "py_str (PStr s) = s"
| "py_str v = py_repr v"

section \<open>utils/cleaning\_data.py\<close>

text \<open>
  \<open>clean_phone\<close>: \<open>re.sub(r"\D", "", phone)\<close> keeps the digits.  A falsy argument
  (\<open>None\<close>, the empty string) gives \<open>None\<close>; a truthy argument that is not a string
  makes \<open>re.sub\<close> raise \<open>TypeError\<close>.
\<close>

fun clean_phone :: "pyval \<Rightarrow> exn + string option" where
  "clean_phone (PStr phone) =
    (if phone = [] then Inr None
     else let phone' = filter is_digit phone
          in if length phone' \<ge> 10 then Inr (Some phone') else Inr None)"
| "clean_phone v = (if truthy v then Inl TypeError else Inr None)"

text \<open>The pattern \<open>[^@]+@[^@]+\.[^@]+\<close>.\<close>

definition email_regex :: regex where
  "email_regex =
    Cat (PlusCls (NotLit CHR ''@''))
      (Cat (Cls (Lit CHR ''@''))
        (Cat (PlusCls (NotLit CHR ''@''))
          (Cat (Cls (Lit CHR ''.'')) (PlusCls (NotLit CHR ''@'')))))"

text \<open>
  \<open>clean_email\<close>: a truthy argument that is not a string has no method \<open>strip\<close>
  (\<open>AttributeError\<close>).
\<close>

fun clean_email :: "pyval \<Rightarrow> exn + string option" where
  "clean_email (PStr email) =
    (if email = [] then Inr None
     else let email' = strip email
          in if re_match email_regex email' \<noteq> None then Inr (Some email') else Inr None)"
| "clean_email v = (if truthy v then Inl AttributeError else Inr None)"

text \<open>
  \<open>clean_benefit_id\<close>, on a string (a cell of the sheet), for which \<open>str(benefit_id)\<close>
  is the string itself.
\<close>

definition clean_benefit_id :: "string \<Rightarrow> string" where
  "clean_benefit_id benefit_id =
    (let b = strip benefit_id
     in if startswith b ''PURL '' then replace ''PURL '' '''' b else b)"

section \<open>db/data\_access\_layer.py\<close>

text \<open>
  A collection is the list of its documents, in the order in which \<open>find()\<close> yields
  them.  \<open>update_one(filter, {"$set": update}, upsert=True)\<close> with the filter
  \<open>{"_id": ident}\<close> sets the fields of the first document with that \<open>_id\<close>; if there is
  none it inserts the document made of the filter and the fields, and reports its
  \<open>_id\<close> as \<open>upserted_id\<close> (\<open>None\<close> after an update).
\<close>

fun dict_set :: "pydict \<Rightarrow> string \<Rightarrow> pyval \<Rightarrow> pydict" where
  "dict_set [] k v = [(k, v)]"
| "dict_set ((k', v') # d) k v =
    (if k' = k then (k', v) # d else (k', v') # dict_set d k v)"

definition set_fields :: "pydict \<Rightarrow> pydict \<Rightarrow> pydict" where
  "set_fields doc upd = foldl (\<lambda>d kv. dict_set d (fst kv) (snd kv)) doc upd"

fun update_first :: "pydict list \<Rightarrow> pyval \<Rightarrow> pydict \<Rightarrow> pydict list option" where
  "update_first [] ident upd = None"
| "update_first (doc # coll) ident upd =
    (if map_of doc ''_id'' = Some ident then Some (set_fields doc upd # coll)
     else map_option ((#) doc) (update_first coll ident upd))"

definition update_one :: "pydict list \<Rightarrow> pyval \<Rightarrow> pydict \<Rightarrow> pydict list \<times> pyval" where
  "update_one coll ident upd =
    (case update_first coll ident upd of
       Some coll' \<Rightarrow> (coll', PNone)
     | None \<Rightarrow> (coll @ [set_fields [(''_id'', ident)] upd], ident))"

text \<open>
  The records that \<open>logging\<close> receives: the level and the fixed start of the message.
\<close>

datatype level = INFO | WARNING | ERROR

type_synonym log = "(level \<times> string) list"

text \<open>
  \<open>insert_or_update_document\<close>.  The argument \<open>fault\<close> is what the awaited
  \<open>update_one\<close> of the driver raises for this call, if it raises; the collection is then
  left as it was.  The first handler takes \<open>DuplicateKeyError\<close>, the second every other
  instance of \<open>Exception\<close>; what is raised outside \<open>Exception\<close> meets no handler and
  leaves the function.  The result is the collection, the log records and what the
  caller sees: a return, or an exception.
\<close>

definition insert_or_update_document ::
  "base_exception option \<Rightarrow> pydict list \<Rightarrow> pyval \<Rightarrow> pydict
     \<Rightarrow> pydict list \<times> log \<times> (base_exception + unit)" where
  "insert_or_update_document fault coll ident update_dict =
    (case fault of
       None \<Rightarrow>
         (let (coll', upserted_id) = update_one coll ident update_dict
          in if truthy upserted_id
             then (coll', [(INFO, ''Inserted new document'')], Inr ())
             else (coll', [(INFO, ''Updated existing document'')], Inr ()))
     | Some (Exception e) \<Rightarrow>
         (if e = DuplicateKeyError
          then (coll, [(WARNING, ''Duplicate key error'')], Inr ())
          else (coll, [(ERROR, ''Error inserting/updating document'')], Inr ()))
     | Some b \<Rightarrow> (coll, [], Inl b))"

section \<open>extraction.py: storing a deal and its person\<close>

text \<open>The pydantic models \<open>PersonInfo\<close> and \<open>DealInfo\<close>; an optional string is an option.\<close>

record PersonInfo =
  pi_id :: string
  pi_benefit_id :: "string option"
  pi_phone_number :: "string option"
  pi_email :: "string option"
  pi_address :: "string option"

record DealInfo =
  di_id :: string
  di_person_id :: string
  di_stage_status :: "StageStatus option"
  di_status :: string
  di_assigned_to :: "string option"
  di_updated_at :: "string option"
  di_name :: "string option"

definition opt_str :: "string option \<Rightarrow> pyval" where
  "opt_str x = (case x of None \<Rightarrow> PNone | Some s \<Rightarrow> PStr s)"

text \<open>
  \<open>deal_info.stage_status.to_dict() if deal_info.stage_status else None\<close>; every member
  of the enumeration is truthy.
\<close>

definition stage_status_dict :: "StageStatus option \<Rightarrow> exn + pyval" where
  "stage_status_dict st = (case st of None \<Rightarrow> Inr PNone | Some s \<Rightarrow> to_dict s)"

text \<open>The dictionaries \<open>info\<close> and \<open>deal_data\<close> of \<open>save_data_to_mongodb\<close>.\<close>

definition person_fields :: "pydict \<Rightarrow> PersonInfo \<Rightarrow> DealInfo \<Rightarrow> exn + pydict" where
  "person_fields data person_info deal_info =
    (case stage_status_dict (di_stage_status deal_info) of
       Inl e \<Rightarrow> Inl e
     | Inr st \<Rightarrow>
         Inr [(''benefit_id'', opt_str (pi_benefit_id person_info)),
              (''phone_number'', opt_str (pi_phone_number person_info)),
              (''updated_at'', dict_get data ''update_time'' PNone),
              (''email'', opt_str (pi_email person_info)),
              (''stage_status'', st),
              (''won_lost'', PStr (di_status deal_info)),
              (''assigned_to'', opt_str (di_assigned_to deal_info)),
              (''name'', opt_str (di_name deal_info)),
              (''address'', opt_str (pi_address person_info))])"

definition deal_fields :: "PersonInfo \<Rightarrow> DealInfo \<Rightarrow> exn + pydict" where
  "deal_fields person_info deal_info =
    (case stage_status_dict (di_stage_status deal_info) of
       Inl e \<Rightarrow> Inl e
     | Inr st \<Rightarrow>
         Inr [(''person_id'', PStr (pi_id person_info)),
              (''stage_status'', st),
              (''status'', PStr (di_status deal_info)),
              (''assigned_to'', opt_str (di_assigned_to deal_info)),
              (''updated_at'', opt_str (di_updated_at deal_info)),
              (''name'', opt_str (di_name deal_info))])"

record db =
  persons :: "pydict list"
  deals :: "pydict list"

text \<open>
  \<open>save_data_to_mongodb\<close>.  \<open>fetched\<close> is what the call of \<open>fetch_deal_data\<close> gives: an
  exception, \<open>None\<close> or a \<open>DealInfo\<close>; \<open>fault1\<close> and \<open>fault2\<close> are what the two writes
  raise, if they raise.
\<close>

definition save_data_to_mongodb ::
  "pydict \<Rightarrow> PersonInfo \<Rightarrow> (exn + DealInfo option)
     \<Rightarrow> base_exception option \<Rightarrow> base_exception option \<Rightarrow> db
     \<Rightarrow> db \<times> log \<times> (base_exception + unit)" where
  "save_data_to_mongodb data person_info fetched fault1 fault2 d =
    (case map_of data ''id'' of
       None \<Rightarrow> (d, [], Inl (Exception KeyError))
     | Some deal_id \<Rightarrow>
        (case fetched of
           Inl e \<Rightarrow> (d, [], Inl (Exception e))
         | Inr None \<Rightarrow> (d, [], Inr ())
         | Inr (Some deal_info) \<Rightarrow>
            (case person_fields data person_info deal_info of
               Inl e \<Rightarrow> (d, [], Inl (Exception e))
             | Inr info \<Rightarrow>
                (case insert_or_update_document fault1 (persons d)
                        (PStr (pi_id person_info)) info of
                   (persons', log1, Inl b) \<Rightarrow> (d\<lparr>persons := persons'\<rparr>, log1, Inl b)
                 | (persons', log1, Inr u) \<Rightarrow>
                    (case deal_fields person_info deal_info of
                       Inl e \<Rightarrow> (d\<lparr>persons := persons'\<rparr>, log1, Inl (Exception e))
                     | Inr deal_data \<Rightarrow>
                        (case insert_or_update_document fault2 (deals d) deal_id deal_data of
                           (deals', log2, r) \<Rightarrow>
                             (d\<lparr>persons := persons', deals := deals'\<rparr>, log1 @ log2, r)))))))"

text \<open>
  The person collections that extraction can produce: it starts empty, and every step is
  the first write of \<open>save_data_to_mongodb\<close>, for some deal, person and outcome of the
  write.
\<close>

inductive written_by_extraction :: "pydict list \<Rightarrow> bool" where
  empty_collection: "written_by_extraction []"
| person_write:
    "written_by_extraction coll \<Longrightarrow>
     person_fields data person_info deal_info = Inr info \<Longrightarrow>
     insert_or_update_document fault coll (PStr (pi_id person_info)) info = (coll', lg, r) \<Longrightarrow>
     written_by_extraction coll'"

section \<open>extraction.py: the retried calls\<close>
















section \<open>extraction.py: counting the pages\<close>

text \<open>
  \<open>total_count / 100\<close> divides two integers into a float: the quotient rounded to the
  nearest double, ties to the even mantissa, and \<open>OverflowError\<close> when that is beyond the
  doubles.  \<open>Double m e\<close> is the double \<open>m * 2 ^ e\<close>.  For a quotient \<open>n / d\<close> of positive
  integers the exponent \<open>e\<close> is the one for which \<open>n / (d * 2 ^ e)\<close> lies from \<open>2 ^ 52\<close>
  up to \<open>2 ^ 53\<close>, found from the bit lengths of \<open>n\<close> and \<open>d\<close>, and not below \<open>- 1074\<close>;
  the mantissa is that scaled quotient rounded to an integer.
\<close>

fun bit_length :: "nat \<Rightarrow> nat" where
  "bit_length n = (if n = 0 then 0 else Suc (bit_length (n div 2)))"

declare bit_length.simps [simp del]

definition round_half_even :: "int \<Rightarrow> int \<Rightarrow> int" where
  "round_half_even n d =
    (let q = n div d; r = n mod d
     in if 2 * r < d then q
        else if d < 2 * r then q + 1
        else if even q then q else q + 1)"

definition scaled :: "int \<Rightarrow> int \<Rightarrow> int \<Rightarrow> int \<times> int" where
  "scaled n d e = (if 0 \<le> e then (n, d * 2 ^ nat e) else (n * 2 ^ nat (- e), d))"

definition double_exponent :: "int \<Rightarrow> int \<Rightarrow> int" where
  "double_exponent n d =
    (let e0 = int (bit_length (nat n)) - int (bit_length (nat d)) - 53
     in max (case scaled n d e0 of (n0, d0) \<Rightarrow>
               if n0 < 2 ^ 53 * d0 then e0 else e0 + 1) (- 1074))"

definition true_divide :: "int \<Rightarrow> int \<Rightarrow> exn + double" where
  "true_divide a b =
    (if b = 0 then Inl ZeroDivisionError
     else if a = 0 then Inr (Double 0 0)
     else let e = double_exponent \<bar>a\<bar> \<bar>b\<bar>;
              m = (case scaled \<bar>a\<bar> \<bar>b\<bar> e of (n, d) \<Rightarrow> round_half_even n d)
          in if 0 \<le> e \<and> 2 ^ 1024 \<le> m * 2 ^ nat e then Inl OverflowError
             else Inr (Double (sgn a * sgn b * m) e))"

text \<open>\<open>math.ceil\<close> of a double: the least integer that is not below it.\<close>

fun math_ceil :: "double \<Rightarrow> int" where
  "math_ceil (Double m e) =
    (if 0 \<le> e then m * 2 ^ nat e else - ((- m) div 2 ^ nat (- e)))"








section \<open>mailers.py and purls.py\<close>

text \<open>
  \<open>extract_description\<close> is the same function in mailers.py and purls.py: the
  \<open>description\<close> of a dictionary that has one, and otherwise the value itself.
\<close>

definition extract_description :: "pyval \<Rightarrow> pyval" where
  "extract_description v =
    (case v of
       PDict d \<Rightarrow> (case map_of d ''description'' of Some x \<Rightarrow> x | None \<Rightarrow> v)
     | _ \<Rightarrow> v)"

text \<open>
  A processed row of the sheet is the dictionary that \<open>main\<close> builds: the row number and
  the cleaned key.  The index is a dictionary from keys to documents; \<open>index.get(k)\<close> is
  \<open>None\<close> or a document, and a document is truthy unless it is empty.  A result is a
  dictionary.
\<close>

record mailers_row =
  mr_row :: int
  mr_phone_number :: string

definition index_get :: "('k \<rightharpoonup> pydict) \<Rightarrow> 'k \<Rightarrow> pyval" where
  "index_get index k = (case index k of None \<Rightarrow> PNone | Some doc \<Rightarrow> PDict doc)"

fun mailers_search_data :: "mailers_row list \<Rightarrow> (string \<rightharpoonup> pydict) \<Rightarrow> pydict list" where
  "mailers_search_data [] phone_data = []"
| "mailers_search_data (row_data # sheet_data) phone_data =
    (case index_get phone_data (mr_phone_number row_data) of
       PDict m \<Rightarrow>
         (if m \<noteq> [] then
            [(''row'', PInt (mr_row row_data)),
             (''benefit_id'', dict_get m ''benefit_id'' (PStr [])),
             (''stage_status'', extract_description (dict_get m ''stage_status'' (PStr []))),
             (''won/lost'', extract_description (dict_get m ''won_lost'' (PStr []))),
             (''assigned_to'', dict_get m ''assigned_to'' (PStr [])),
             (''name'', dict_get m ''name'' (PStr [])),
             (''address'', dict_get m ''address'' (PStr [])),
             (''email'', dict_get m ''email'' (PStr []))]
          else
            [(''row'', PInt (mr_row row_data)),
             (''benefit_id'', PStr ''N/A''),
             (''stage_status'', PStr ''N/A''),
             (''won/lost'', PStr ''N/A''),
             (''assigned_to'', PStr ''N/A''),
             (''name'', PStr ''N/A''),
             (''address'', PStr ''N/A''),
             (''email'', PStr ''N/A'')])
     | _ \<Rightarrow>
         [(''row'', PInt (mr_row row_data)),
          (''benefit_id'', PStr ''N/A''),
          (''stage_status'', PStr ''N/A''),
          (''won/lost'', PStr ''N/A''),
          (''assigned_to'', PStr ''N/A''),
          (''name'', PStr ''N/A''),
          (''address'', PStr ''N/A''),
          (''email'', PStr ''N/A'')])
    # mailers_search_data sheet_data phone_data"

record purls_row =
  pr_row :: int
  pr_benefit_id :: string

text \<open>
  \<open>load_mongodb_data\<close> of purls.py: every document with a truthy \<open>benefit_id\<close> is
  stored under it, a later document replacing an earlier one.  A dictionary cannot be a
  key (\<open>TypeError\<close>).
\<close>

fun purls_load_loop :: "pydict list \<Rightarrow> (pyval \<rightharpoonup> pydict) \<Rightarrow> exn + (pyval \<rightharpoonup> pydict)" where
  "purls_load_loop [] benefit_dict = Inr benefit_dict"
| "purls_load_loop (doc # docs) benefit_dict =
    (let benefit_id = dict_get doc ''benefit_id'' (PStr [])
     in if truthy benefit_id then
          (case benefit_id of
             PDict d \<Rightarrow> Inl TypeError
           | _ \<Rightarrow> purls_load_loop docs (benefit_dict(benefit_id \<mapsto> doc)))
        else purls_load_loop docs benefit_dict)"

definition purls_load_mongodb_data :: "pydict list \<Rightarrow> exn + (pyval \<rightharpoonup> pydict)" where
  "purls_load_mongodb_data collection = purls_load_loop collection Map.empty"

fun purls_search_data :: "purls_row list \<Rightarrow> (pyval \<rightharpoonup> pydict) \<Rightarrow> pydict list" where
  "purls_search_data [] benefit_data = []"
| "purls_search_data (row_data # sheet_data) benefit_data =
    (case index_get benefit_data (PStr (pr_benefit_id row_data)) of
       PDict m \<Rightarrow>
         (if m \<noteq> [] then
            [(''row'', PInt (pr_row row_data)),
             (''phone_number'', dict_get m ''phone_number'' (PStr [])),
             (''email'', dict_get m ''email'' (PStr [])),
             (''stage_status'', extract_description (dict_get m ''stage_status'' (PStr []))),
             (''won/lost'', extract_description (dict_get m ''won/lost'' (PStr []))),
             (''assigned_to'', dict_get m ''assigned_to'' (PStr [])),
             (''name'', dict_get m ''name'' (PStr [])),
             (''address'', dict_get m ''address'' (PStr []))]
          else
            [(''row'', PInt (pr_row row_data)),
             (''phone_number'', PStr ''N/A''),
             (''email'', PStr ''N/A''),
             (''stage_status'', PStr ''N/A''),
             (''won/lost'', PStr ''N/A''),
             (''assigned_to'', PStr ''N/A''),
             (''name'', PStr ''N/A''),
             (''address'', PStr ''N/A'')])
     | _ \<Rightarrow>
         [(''row'', PInt (pr_row row_data)),
          (''phone_number'', PStr ''N/A''),
          (''email'', PStr ''N/A''),
          (''stage_status'', PStr ''N/A''),
          (''won/lost'', PStr ''N/A''),
          (''assigned_to'', PStr ''N/A''),
          (''name'', PStr ''N/A''),
          (''address'', PStr ''N/A'')])
    # purls_search_data sheet_data benefit_data"

section \<open>digisheet.py\<close>

text \<open>
  \<open>datetime.strptime(s, "%Y-%m-%d %H:%M:%S")\<close>.  The library turns the format into the
  pattern
  \<open>(?P<Y>\d\d\d\d)-(?P<m>1[0-2]|0[1-9]|[1-9])-(?P<d>3[0-1]|[1-2]\d|0[1-9]|[1-9]| [1-9])\s+\<close>
  \<open>(?P<H>2[0-3]|[0-1]\d|\d):(?P<M>[0-5]\d|\d):(?P<S>6[0-1]|[0-5]\d|\d)\<close>,
  matches it at the start of the text, and raises \<open>ValueError\<close> when it does not match,
  when text is left after the match, or when the numbers are not a date and a time
  (year 0, a day beyond the month, a second beyond 59).  An argument that is not a
  string is a \<open>TypeError\<close>.  A \<open>datetime\<close> is its six fields, compared in that order.
\<close>

fun cat_list :: "regex \<Rightarrow> regex list \<Rightarrow> regex" where
  "cat_list r [] = r"
| "cat_list r (x # xs) = Cat r (cat_list x xs)"

fun alt_list :: "regex \<Rightarrow> regex list \<Rightarrow> regex" where
  "alt_list r [] = r"
| "alt_list r (x # xs) = Alt r (alt_list x xs)"

definition two :: "cls \<Rightarrow> cls \<Rightarrow> regex" where
  "two a b = Cat (Cls a) (Cls b)"

definition directive_Y :: regex where
  "directive_Y = Group ''Y'' (cat_list (Cls Digit) [Cls Digit, Cls Digit, Cls Digit])"

definition directive_m :: regex where
  "directive_m = Group ''m''
    (alt_list (two (Lit CHR ''1'') (Range CHR ''0'' CHR ''2''))
       [two (Lit CHR ''0'') (Range CHR ''1'' CHR ''9''),
        Cls (Range CHR ''1'' CHR ''9'')])"

definition directive_d :: regex where
  "directive_d = Group ''d''
    (alt_list (two (Lit CHR ''3'') (Range CHR ''0'' CHR ''1''))
       [two (Range CHR ''1'' CHR ''2'') Digit,
        two (Lit CHR ''0'') (Range CHR ''1'' CHR ''9''),
        Cls (Range CHR ''1'' CHR ''9''),
        two (Lit CHR '' '') (Range CHR ''1'' CHR ''9'')])"

definition directive_H :: regex where
  "directive_H = Group ''H''
    (alt_list (two (Lit CHR ''2'') (Range CHR ''0'' CHR ''3''))
       [two (Range CHR ''0'' CHR ''1'') Digit,
        Cls Digit])"

definition directive_M :: regex where
  "directive_M = Group ''M''
    (alt_list (two (Range CHR ''0'' CHR ''5'') Digit) [Cls Digit])"

definition directive_S :: regex where
  "directive_S = Group ''S''
    (alt_list (two (Lit CHR ''6'') (Range CHR ''0'' CHR ''1''))
       [two (Range CHR ''0'' CHR ''5'') Digit,
        Cls Digit])"

definition strptime_regex :: regex where
  "strptime_regex =
    cat_list directive_Y
      [Cls (Lit CHR ''-''), directive_m, Cls (Lit CHR ''-''), directive_d, PlusCls Space,
       directive_H, Cls (Lit CHR '':''), directive_M, Cls (Lit CHR '':''), directive_S]"

type_synonym datetime = "nat \<times> nat \<times> nat \<times> nat \<times> nat \<times> nat"

definition group_int :: "captures \<Rightarrow> string \<Rightarrow> nat" where
  "group_int found k =
    (case map_of found k of
       None \<Rightarrow> 0
     | Some s \<Rightarrow> foldl (\<lambda>n c. 10 * n + (of_char c - 48)) 0 (filter is_digit s))"

definition days_in_month :: "nat \<Rightarrow> nat \<Rightarrow> nat" where
  "days_in_month year month =
    (if month = 2 then
       (if year mod 4 = 0 \<and> (year mod 100 \<noteq> 0 \<or> year mod 400 = 0) then 29 else 28)
     else if month \<in> {4, 6, 9, 11} then 30 else 31)"

definition strptime :: "pyval \<Rightarrow> exn + datetime" where
  "strptime v =
    (case v of
       PStr data_string \<Rightarrow>
         (case re_match strptime_regex data_string of
            None \<Rightarrow> Inl ValueError
          | Some (found, rest) \<Rightarrow>
              if rest \<noteq> [] then Inl ValueError
              else
                let year = group_int found ''Y''; month = group_int found ''m'';
                    day = group_int found ''d''; hour = group_int found ''H'';
                    minute = group_int found ''M''; second = group_int found ''S''
                in if year < 1 \<or> days_in_month year month < day \<or> 59 < second
                   then Inl ValueError
                   else Inr (year, month, day, hour, minute, second))
     | _ \<Rightarrow> Inl TypeError)"

text \<open>
  \<open>load_mongodb_data\<close> of digisheet.py.  An entry of an index is the document and its
  parsed \<open>updated_at\<close>.  For a truthy key the entry is written when the key is new or the
  document is later than the one stored.
\<close>

record index_entry =
  ie_data :: pydict
  ie_updated_at :: datetime

definition index_update ::
  "(string \<rightharpoonup> index_entry) \<Rightarrow> string option \<Rightarrow> pydict \<Rightarrow> datetime
     \<Rightarrow> (string \<rightharpoonup> index_entry)" where
  "index_update index key doc updated_at =
    (case key of
       None \<Rightarrow> index
     | Some k \<Rightarrow>
        (if k = [] then index
         else
           (case index k of
              None \<Rightarrow> index(k \<mapsto> \<lparr>ie_data = doc, ie_updated_at = updated_at\<rparr>)
            | Some old \<Rightarrow>
               (if ie_updated_at old < updated_at
                then index(k \<mapsto> \<lparr>ie_data = doc, ie_updated_at = updated_at\<rparr>)
                else index))))"

fun digisheet_load_loop ::
  "pydict list \<Rightarrow> (string \<rightharpoonup> index_entry) \<Rightarrow> (string \<rightharpoonup> index_entry)
     \<Rightarrow> exn + (string \<rightharpoonup> index_entry) \<times> (string \<rightharpoonup> index_entry)" where
  "digisheet_load_loop [] email_dict phone_dict = Inr (email_dict, phone_dict)"
| "digisheet_load_loop (doc # docs) email_dict phone_dict =
    (case clean_email (dict_get doc ''email'' PNone) of
       Inl e \<Rightarrow> Inl e
     | Inr email \<Rightarrow>
        (case clean_phone (dict_get doc ''phone_number'' PNone) of
           Inl e \<Rightarrow> Inl e
         | Inr phone \<Rightarrow>
            (case strptime (dict_get doc ''updated_at'' (PStr [])) of
               Inl e \<Rightarrow> Inl e
             | Inr updated_at \<Rightarrow>
                 digisheet_load_loop docs
                   (index_update email_dict email doc updated_at)
                   (index_update phone_dict phone doc updated_at))))"

definition digisheet_load_mongodb_data ::
  "pydict list \<Rightarrow> exn + (string \<rightharpoonup> index_entry) \<times> (string \<rightharpoonup> index_entry)" where
  "digisheet_load_mongodb_data collection = digisheet_load_loop collection Map.empty Map.empty"

text \<open>
  The vocabulary of the index: the cleaned email key and the cleaned phone key of a
  stored document (none when the cleaning rejects the value or raises), and its parsed
  \<open>updated_at\<close> (none when \<open>strptime\<close> raises).
\<close>

definition email_key :: "pydict \<Rightarrow> string option" where
  "email_key doc =
    (case clean_email (dict_get doc ''email'' PNone) of Inl e \<Rightarrow> None | Inr k \<Rightarrow> k)"

definition phone_key :: "pydict \<Rightarrow> string option" where
  "phone_key doc =
    (case clean_phone (dict_get doc ''phone_number'' PNone) of Inl e \<Rightarrow> None | Inr k \<Rightarrow> k)"

definition parsed_updated_at :: "pydict \<Rightarrow> datetime option" where
  "parsed_updated_at doc =
    (case strptime (dict_get doc ''updated_at'' (PStr [])) of
       Inl e \<Rightarrow> None
     | Inr t \<Rightarrow> Some t)"

text \<open>\<open>extract_description\<close> of digisheet.py.\<close>

definition digisheet_extract_description :: "pyval \<Rightarrow> pyval" where
  "digisheet_extract_description v =
    (case v of
       PDict d \<Rightarrow> dict_get d ''description'' (PStr (py_str v))
     | PNone \<Rightarrow> PStr []
     | _ \<Rightarrow> PStr (py_str v))"

record digisheet_row =
  dr_row :: int
  dr_email :: "string option"
  dr_phone_number :: "string option"


text \<open>\<open>key and key in index\<close>, and then \<open>index[key]\<close>.\<close>

definition index_hit :: "string option \<Rightarrow> (string \<rightharpoonup> index_entry) \<Rightarrow> index_entry option" where
  "index_hit key index =
    (case key of None \<Rightarrow> None | Some k \<Rightarrow> if k = [] then None else index k)"

definition digisheet_match ::
  "digisheet_row \<Rightarrow> (string \<rightharpoonup> index_entry) \<Rightarrow> (string \<rightharpoonup> index_entry) \<Rightarrow> pyval" where
  "digisheet_match row_data email_data phone_data =
    (case index_hit (dr_email row_data) email_data of
       Some entry \<Rightarrow> PDict (ie_data entry)
     | None \<Rightarrow>
        (case index_hit (dr_phone_number row_data) phone_data of
           Some entry \<Rightarrow> PDict (ie_data entry)
         | None \<Rightarrow> PNone))"

fun digisheet_search_data ::
  "digisheet_row list \<Rightarrow> (string \<rightharpoonup> index_entry) \<Rightarrow> (string \<rightharpoonup> index_entry)
     \<Rightarrow> pydict list" where
  "digisheet_search_data [] email_data phone_data = []"
| "digisheet_search_data (row_data # sheet_data) email_data phone_data =
    (case digisheet_match row_data email_data phone_data of
       PDict m \<Rightarrow>
         (if m \<noteq> [] then
            [(''row'', PInt (dr_row row_data)),
             (''stage_status'',
                digisheet_extract_description (dict_get m ''stage_status'' (PStr []))),
             (''won/lost'',
                digisheet_extract_description (dict_get m ''won_lost'' (PStr []))),
             (''assigned_to'',
                digisheet_extract_description (dict_get m ''assigned_to'' (PStr [])))]
          else
            [(''row'', PInt (dr_row row_data)),
             (''stage_status'', PStr ''N/A''),
             (''won/lost'', PStr ''N/A''),
             (''assigned_to'', PStr ''N/A'')])
     | _ \<Rightarrow>
         [(''row'', PInt (dr_row row_data)),
          (''stage_status'', PStr ''N/A''),
          (''won/lost'', PStr ''N/A''),
          (''assigned_to'', PStr ''N/A'')])
    # digisheet_search_data sheet_data email_data phone_data"







section \<open>Example data\<close>

text \<open>
  A person and a won deal as extraction stores them, and the person collection after
  that one write.
\<close>

definition example_person :: PersonInfo where
  "example_person =
    \<lparr>pi_id = ''7'', pi_benefit_id = Some ''777'', pi_phone_number = Some ''5551234567'',
     pi_email = Some ''a@b.com'', pi_address = Some ''1 Main St''\<rparr>"

definition example_deal :: DealInfo where
  "example_deal =
    \<lparr>di_id = ''1'', di_person_id = ''7'', di_stage_status = Some PAID, di_status = ''WON'',
     di_assigned_to = Some ''Ann'', di_updated_at = Some ''2024-01-05 10:00:00'',
     di_name = Some ''Bob''\<rparr>"

definition example_document :: pydict where
  "example_document =
    [(''_id'', PStr ''7''),
     (''benefit_id'', PStr ''777''),
     (''phone_number'', PStr ''5551234567''),
     (''updated_at'', PStr ''2024-01-05 10:00:00''),
     (''email'', PStr ''a@b.com''),
     (''stage_status'', PDict [(''value'', PInt 6), (''description'', PStr ''PAID'')]),
     (''won_lost'', PStr ''WON''),
     (''assigned_to'', PStr ''Ann''),
     (''name'', PStr ''Bob''),
     (''address'', PStr ''1 Main St'')]"

text \<open>
  Two documents with the same email and different times of update, and a document whose
  \<open>updated_at\<close> is in the ISO format with a \<open>T\<close>.
\<close>

definition early_document :: pydict where
  "early_document =
    [(''_id'', PStr ''7''), (''email'', PStr ''a@b.com''),
     (''phone_number'', PStr ''5551234567''),
     (''updated_at'', PStr ''2024-01-05 10:00:00'')]"

definition late_document :: pydict where
  "late_document =
    [(''_id'', PStr ''8''), (''email'', PStr ''a@b.com''),
     (''phone_number'', PStr ''5551234567''),
     (''updated_at'', PStr ''2024-03-01 09:30:00'')]"





section \<open>Properties of StageStatus\<close>

lemma stage_value_range: "0 \<le> stage_value s \<and> stage_value s \<le> 7"
  by (cases s) simp_all

lemma stage_value_inj: "stage_value s = stage_value s' \<Longrightarrow> s = s'"
  by (cases s; cases s') simp_all

lemma stage_value_members: "0 \<le> n \<Longrightarrow> n \<le> 7 \<Longrightarrow> n \<in> stage_value ` set members"
  by (auto simp: members_def)

lemma all_members: "s \<in> set members"
  by (cases s) (simp_all add: members_def)

lemma double_equals_iff:
  "(if 0 \<le> e then m * 2 ^ nat e = n else m = n * 2 ^ nat (- e))
     \<longleftrightarrow> real_of_int m * 2 powi e = real_of_int n"
proof (cases "0 \<le> e")
  case True
  then have "real_of_int m * 2 powi e = real_of_int (m * 2 ^ nat e)"
    by (simp add: power_int_def)
  with True show ?thesis by (simp only: of_int_eq_iff if_True)
next
  case False
  then have "real_of_int m * 2 powi e = real_of_int m / 2 ^ nat (- e)"
    by (simp add: power_int_def field_simps)
  moreover have "real_of_int m / 2 ^ nat (- e) = real_of_int n
      \<longleftrightarrow> real_of_int m = real_of_int (n * 2 ^ nat (- e))"
    by (simp add: field_simps)
  ultimately show ?thesis using False by (simp only: of_int_eq_iff if_False)
qed

lemma equals_int_iff:
  "equals_int v n \<longleftrightarrow>
     v = JInt n \<or> (v = JBool True \<and> n = 1) \<or> (v = JBool False \<and> n = 0)
     \<or> (\<exists>m e. v = JFloat (Finite (Double m e)) \<and> real_of_int m * 2 powi e = real_of_int n)"
proof (cases v)
  case (JFloat f)
  show ?thesis
  proof (cases f)
    case (Finite d)
    obtain m e where d: "d = Double m e" by (cases d)
    from JFloat Finite d show ?thesis
      using double_equals_iff [of e m n] by simp
  qed (simp_all add: JFloat)
next
  case (JBool b)
  then show ?thesis by (cases b) auto
qed auto

lemma equals_int_unique: "equals_int v a \<Longrightarrow> equals_int v b \<Longrightarrow> a = b"
  unfolding equals_int_iff by (elim disjE exE conjE) simp_all

lemma from_number_Inr_iff: "from_number v = Inr s \<longleftrightarrow> equals_int v (stage_value s)"
proof
  assume "from_number v = Inr s"
  then have "find (\<lambda>m. equals_int v (stage_value m)) members = Some s"
    by (simp add: from_number_def split: option.splits)
  then show "equals_int v (stage_value s)"
    by (auto simp: find_Some_iff)
next
  assume e: "equals_int v (stage_value s)"
  with all_members [of s] have "find (\<lambda>m. equals_int v (stage_value m)) members \<noteq> None"
    by (auto simp: find_None_iff)
  then obtain s' where s': "find (\<lambda>m. equals_int v (stage_value m)) members = Some s'"
    by blast
  then have "equals_int v (stage_value s')"
    by (auto simp: find_Some_iff)
  with e have "s' = s"
    using equals_int_unique stage_value_inj by blast
  with s' show "from_number v = Inr s"
    by (simp add: from_number_def)
qed

lemma from_number_error: "from_number v = Inl e \<Longrightarrow> e = ValueError"
  by (simp add: from_number_def split: option.splits)

lemma from_number_labels:
  "map (\<lambda>n. case from_number (JInt n) of Inl e \<Rightarrow> Inl e | Inr s \<Rightarrow> description s)
     [0, 1, 2, 3, 4, 5, 6, 7]
   = map Inr [''Trying to Contact'', ''Took App'', ''Rec Docs - Lender Call'',
       ''Financial Sched'', ''Compliance Shed'', ''Pending Payment'', ''PAID'',
       ''Sub'd to Processing'']"
  by (simp add: from_number_def members_def description_def descriptions_def)

text \<open>
  C2 (as amended).  Construction of a \<open>StageStatus\<close> from a raw number is a lookup by
  equality, and it is total-or-error.  For every integer \<open>n\<close> from 0 to 7, \<open>from_number\<close>
  succeeds and its result is the one member whose value is \<open>n\<close>; the descriptions of the
  members found for 0, 1, ..., 7 are the eight labels of the table, in its order.  The
  values that Python counts as equal to such an integer are taken as well: \<open>True\<close> gives
  the member of 1, \<open>False\<close> the member of 0, and a float whose value \<open>m * 2 ^ e\<close> is the
  value of a member gives that member.  \<open>from_number\<close> succeeds on nothing else: for
  every other value that JSON decoding gives (another integer, another float, a NaN, an
  infinity, \<open>None\<close>, a string, a list, a dictionary) it raises \<open>ValueError\<close>, and no
  label is substituted.
\<close>

theorem from_number_by_equality:
  "(0 \<le> n \<and> n \<le> 7 \<longrightarrow>
      (\<exists>s. from_number (JInt n) = Inr s \<and> stage_value s = n
         \<and> (\<forall>s'. stage_value s' = n \<longrightarrow> s' = s)))
   \<and> map (\<lambda>n. case from_number (JInt n) of Inl e \<Rightarrow> Inl e | Inr s \<Rightarrow> description s)
        [0, 1, 2, 3, 4, 5, 6, 7]
      = map Inr [''Trying to Contact'', ''Took App'', ''Rec Docs - Lender Call'',
          ''Financial Sched'', ''Compliance Shed'', ''Pending Payment'', ''PAID'',
          ''Sub'd to Processing'']
   \<and> (from_number v = Inr s \<longleftrightarrow>
        v = JInt (stage_value s)
        \<or> (v = JBool True \<and> s = TOOK_APP)
        \<or> (v = JBool False \<and> s = TRYING_TO_CONTACT)
        \<or> (\<exists>m e. v = JFloat (Finite (Double m e))
              \<and> real_of_int m * 2 powi e = real_of_int (stage_value s)))
   \<and> ((\<forall>s. from_number v \<noteq> Inr s) \<longrightarrow> from_number v = Inl ValueError)"
proof (intro conjI impI)
  assume n: "0 \<le> n \<and> n \<le> 7"
  then obtain s where s: "stage_value s = n"
    using stage_value_members [of n] by auto
  then have "from_number (JInt n) = Inr s"
    by (simp add: from_number_Inr_iff)
  moreover have "\<forall>s'. stage_value s' = n \<longrightarrow> s' = s"
    using s stage_value_inj by auto
  ultimately show "\<exists>s. from_number (JInt n) = Inr s \<and> stage_value s = n
         \<and> (\<forall>s'. stage_value s' = n \<longrightarrow> s' = s)"
    using s by blast
next
  show "map (\<lambda>n. case from_number (JInt n) of Inl e \<Rightarrow> Inl e | Inr s \<Rightarrow> description s)
        [0, 1, 2, 3, 4, 5, 6, 7]
      = map Inr [''Trying to Contact'', ''Took App'', ''Rec Docs - Lender Call'',
          ''Financial Sched'', ''Compliance Shed'', ''Pending Payment'', ''PAID'',
          ''Sub'd to Processing'']"
    by (rule from_number_labels)
next
  have one: "stage_value s = 1 \<longleftrightarrow> s = TOOK_APP"
    and zero: "stage_value s = 0 \<longleftrightarrow> s = TRYING_TO_CONTACT"
    by (cases s; simp)+
  show "from_number v = Inr s \<longleftrightarrow>
        v = JInt (stage_value s)
        \<or> (v = JBool True \<and> s = TOOK_APP)
        \<or> (v = JBool False \<and> s = TRYING_TO_CONTACT)
        \<or> (\<exists>m e. v = JFloat (Finite (Double m e))
              \<and> real_of_int m * 2 powi e = real_of_int (stage_value s))"
    unfolding from_number_Inr_iff equals_int_iff one zero ..
next
  assume "\<forall>s. from_number v \<noteq> Inr s"
  then show "from_number v = Inl ValueError"
    using from_number_error by (cases "from_number v") auto
qed

theorem from_number_by_equality_witness:
  "from_number (JInt 4) = Inr COMPLIANCE_SCHED
   \<and> description COMPLIANCE_SCHED = Inr ''Compliance Shed''
   \<and> from_number (JFloat (Finite (Double 3 1))) = Inr PAID
   \<and> from_number (JInt 8) = Inl ValueError
   \<and> from_number (JInt (- 1)) = Inl ValueError
   \<and> from_number (JFloat (Finite (Double 5 (- 1)))) = Inl ValueError
   \<and> from_number (JFloat NaN) = Inl ValueError
   \<and> from_number JNone = Inl ValueError
   \<and> from_number (JStr ''4'') = Inl ValueError
   \<and> from_number (JList [JInt 4]) = Inl ValueError"
proof -
  have a: "from_number (JInt 4) = Inr COMPLIANCE_SCHED"
    using from_number_by_equality [of 4 "JInt 4" COMPLIANCE_SCHED] by simp
  have b: "description COMPLIANCE_SCHED = Inr ''Compliance Shed''"
    using from_number_by_equality [of 4 "JInt 4" COMPLIANCE_SCHED] a by simp
  have c: "from_number (JFloat (Finite (Double 3 1))) = Inr PAID"
    using from_number_by_equality [of 0 "JFloat (Finite (Double 3 1))" PAID] by simp
  have r: "from_number v = Inl ValueError" if "\<And>s. from_number v \<noteq> Inr s" for v
    using from_number_by_equality [of 0 v] that by simp
  have d: "from_number (JInt 8) = Inl ValueError"
  proof (rule r)
    fix s
    have "stage_value s \<noteq> 8" by (cases s) simp_all
    then show "from_number (JInt 8) \<noteq> Inr s"
      using from_number_by_equality [of 0 "JInt 8" s] by auto
  qed
  have e: "from_number (JInt (- 1)) = Inl ValueError"
  proof (rule r)
    fix s
    have "stage_value s \<noteq> - 1" by (cases s) simp_all
    then show "from_number (JInt (- 1)) \<noteq> Inr s"
      using from_number_by_equality [of 0 "JInt (- 1)" s] by auto
  qed
  have f: "from_number (JFloat (Finite (Double 5 (- 1)))) = Inl ValueError"
  proof (rule r)
    fix s
    have "real_of_int 5 * 2 powi (- 1) \<noteq> real_of_int (stage_value s)"
      by (cases s) (simp_all add: power_int_def)
    then show "from_number (JFloat (Finite (Double 5 (- 1)))) \<noteq> Inr s"
      using from_number_by_equality [of 0 "JFloat (Finite (Double 5 (- 1)))" s] by simp
  qed
  have g: "from_number (JFloat NaN) = Inl ValueError"
    "from_number JNone = Inl ValueError"
    "from_number (JStr ''4'') = Inl ValueError"
    "from_number (JList [JInt 4]) = Inl ValueError"
  proof -
    show "from_number (JFloat NaN) = Inl ValueError"
      using from_number_by_equality [of 0 "JFloat NaN"] by (intro r) simp
    show "from_number JNone = Inl ValueError"
      using from_number_by_equality [of 0 JNone] by (intro r) simp
    show "from_number (JStr ''4'') = Inl ValueError"
      using from_number_by_equality [of 0 "JStr ''4''"] by (intro r) simp
    show "from_number (JList [JInt 4]) = Inl ValueError"
      using from_number_by_equality [of 0 "JList [JInt 4]"] by (intro r) simp
  qed
  from a b c d e f g show ?thesis by simp
qed

text \<open>
  The claim as it was stated fails: the float 2.0 and the boolean \<open>True\<close> are inputs
  other than the integers 0 to 7, and \<open>from_number\<close> does not raise on them.
\<close>

theorem from_number_accepts_float_and_bool:
  "from_number (JFloat (Finite (Double 2 0))) = Inr REC_DOCS_LENDER_CALL
   \<and> from_number (JBool True) = Inr TOOK_APP"
  by (simp add: from_number_def members_def)

section \<open>The retried calls\<close>







section \<open>Store writes\<close>

lemma to_dict_total: "\<exists>v. to_dict s = Inr v"
  by (cases s) (simp_all add: to_dict_def description_def descriptions_def)

lemma stage_status_dict_total: "\<exists>v. stage_status_dict st = Inr v"
  using to_dict_total by (cases st) (simp_all add: stage_status_dict_def)

lemma person_fields_total: "\<exists>info. person_fields data person_info deal_info = Inr info"
proof -
  obtain v where "stage_status_dict (di_stage_status deal_info) = Inr v"
    using stage_status_dict_total by blast
  then show ?thesis by (simp add: person_fields_def)
qed

lemma deal_fields_total: "\<exists>dd. deal_fields person_info deal_info = Inr dd"
proof -
  obtain v where "stage_status_dict (di_stage_status deal_info) = Inr v"
    using stage_status_dict_total by blast
  then show ?thesis by (simp add: deal_fields_def)
qed

lemma insert_returns:
  assumes "\<forall>b. fault = Some b \<longrightarrow> is_exception b"
  shows "snd (snd (insert_or_update_document fault coll ident upd)) = Inr ()"
proof (cases fault)
  case None
  then show ?thesis
    by (simp add: insert_or_update_document_def split: prod.splits)
next
  case (Some b)
  with assms show ?thesis
    by (cases b) (simp_all add: insert_or_update_document_def)
qed

text \<open>
  C8 (as amended).  \<open>insert_or_update_document\<close> never lets an instance of \<open>Exception\<close>
  reach its caller: when the write succeeds, or raises an instance of \<open>Exception\<close>, the
  caller sees a return.  A duplicate-key error is logged as a warning and swallowed, any
  other instance of \<open>Exception\<close> is logged as an error and swallowed, and so
  \<open>save_data_to_mongodb\<close> returns normally when its two writes meet such failures.  What
  the write raises outside \<open>Exception\<close> (the cancellation of the task, a keyboard
  interrupt) is not logged and reaches the caller.
\<close>

theorem insert_or_update_document_swallows_exceptions:
  "((\<forall>b. fault = Some b \<longrightarrow> is_exception b) \<longrightarrow>
        snd (snd (insert_or_update_document fault coll ident upd)) = Inr ())
   \<and> (fault = Some (Exception DuplicateKeyError) \<longrightarrow>
        insert_or_update_document fault coll ident upd =
          (coll, [(WARNING, ''Duplicate key error'')], Inr ()))
   \<and> (fault = Some (Exception e) \<and> e \<noteq> DuplicateKeyError \<longrightarrow>
        insert_or_update_document fault coll ident upd =
          (coll, [(ERROR, ''Error inserting/updating document'')], Inr ()))
   \<and> (fault = Some b \<and> \<not> is_exception b \<longrightarrow>
        insert_or_update_document fault coll ident upd = (coll, [], Inl b))
   \<and> (map_of data ''id'' \<noteq> None
        \<and> (\<forall>b. fault1 = Some b \<longrightarrow> is_exception b)
        \<and> (\<forall>b. fault2 = Some b \<longrightarrow> is_exception b) \<longrightarrow>
        snd (snd (save_data_to_mongodb data person_info (Inr (Some deal_info))
                    fault1 fault2 d)) = Inr ())"
proof (intro conjI impI)
  assume "\<forall>b. fault = Some b \<longrightarrow> is_exception b"
  then show "snd (snd (insert_or_update_document fault coll ident upd)) = Inr ()"
    by (rule insert_returns)
next
  assume "fault = Some (Exception DuplicateKeyError)"
  then show "insert_or_update_document fault coll ident upd =
          (coll, [(WARNING, ''Duplicate key error'')], Inr ())"
    by (simp add: insert_or_update_document_def)
next
  assume "fault = Some (Exception e) \<and> e \<noteq> DuplicateKeyError"
  then show "insert_or_update_document fault coll ident upd =
          (coll, [(ERROR, ''Error inserting/updating document'')], Inr ())"
    by (simp add: insert_or_update_document_def)
next
  assume "fault = Some b \<and> \<not> is_exception b"
  then show "insert_or_update_document fault coll ident upd = (coll, [], Inl b)"
    by (cases b) (simp_all add: insert_or_update_document_def)
next
  assume a: "map_of data ''id'' \<noteq> None
        \<and> (\<forall>b. fault1 = Some b \<longrightarrow> is_exception b)
        \<and> (\<forall>b. fault2 = Some b \<longrightarrow> is_exception b)"
  then obtain deal_id where i: "map_of data ''id'' = Some deal_id" by blast
  obtain info where p: "person_fields data person_info deal_info = Inr info"
    using person_fields_total by blast
  obtain dd where q: "deal_fields person_info deal_info = Inr dd"
    using deal_fields_total by blast
  from a have f1: "\<forall>b. fault1 = Some b \<longrightarrow> is_exception b"
    and f2: "\<forall>b. fault2 = Some b \<longrightarrow> is_exception b"
    by simp_all
  obtain c1 l1 where w1:
    "insert_or_update_document fault1 (persons d) (PStr (pi_id person_info)) info = (c1, l1, Inr ())"
    using insert_returns [OF f1, of "persons d" "PStr (pi_id person_info)" info]
    by (metis prod.collapse)
  obtain c2 l2 where w2:
    "insert_or_update_document fault2 (deals d) deal_id dd = (c2, l2, Inr ())"
    using insert_returns [OF f2, of "deals d" deal_id dd]
    by (metis prod.collapse)
  show "snd (snd (save_data_to_mongodb data person_info (Inr (Some deal_info))
                    fault1 fault2 d)) = Inr ()"
    by (simp add: save_data_to_mongodb_def i p q w1 w2)
qed

theorem insert_or_update_document_swallows_exceptions_witness:
  "insert_or_update_document (Some (Exception DuplicateKeyError)) [] (PStr ''7'')
       [(''name'', PStr ''Ann'')]
     = ([], [(WARNING, ''Duplicate key error'')], Inr ())
   \<and> insert_or_update_document (Some (Exception (OtherException ''network''))) [] (PStr ''7'')
       [(''name'', PStr ''Ann'')]
     = ([], [(ERROR, ''Error inserting/updating document'')], Inr ())
   \<and> insert_or_update_document (Some KeyboardInterrupt) [] (PStr ''7'')
       [(''name'', PStr ''Ann'')]
     = ([], [], Inl KeyboardInterrupt)
   \<and> snd (snd (insert_or_update_document None [] (PStr ''7'') [(''name'', PStr ''Ann'')]))
     = Inr ()
   \<and> snd (snd (save_data_to_mongodb [(''id'', PInt 1)]
         \<lparr>pi_id = ''7'', pi_benefit_id = None, pi_phone_number = None, pi_email = None,
          pi_address = None\<rparr>
         (Inr (Some \<lparr>di_id = ''1'', di_person_id = ''7'', di_stage_status = Some PAID,
                     di_status = ''WON'', di_assigned_to = None, di_updated_at = None,
                     di_name = None\<rparr>))
         (Some (Exception DuplicateKeyError)) (Some (Exception (OtherException ''network'')))
         \<lparr>persons = [], deals = []\<rparr>)) = Inr ()"
proof -
  have a: "insert_or_update_document (Some (Exception DuplicateKeyError)) [] (PStr ''7'')
             [(''name'', PStr ''Ann'')]
           = ([], [(WARNING, ''Duplicate key error'')], Inr ())"
    using insert_or_update_document_swallows_exceptions
      [of "Some (Exception DuplicateKeyError)" "[]" "PStr ''7''" "[(''name'', PStr ''Ann'')]"]
    by simp
  have b: "insert_or_update_document (Some (Exception (OtherException ''network''))) []
             (PStr ''7'') [(''name'', PStr ''Ann'')]
           = ([], [(ERROR, ''Error inserting/updating document'')], Inr ())"
    using insert_or_update_document_swallows_exceptions
      [of "Some (Exception (OtherException ''network''))" "[]" "PStr ''7''"
          "[(''name'', PStr ''Ann'')]" "OtherException ''network''"]
    by simp
  have c: "insert_or_update_document (Some KeyboardInterrupt) [] (PStr ''7'')
             [(''name'', PStr ''Ann'')]
           = ([], [], Inl KeyboardInterrupt)"
    using insert_or_update_document_swallows_exceptions
      [of "Some KeyboardInterrupt" "[]" "PStr ''7''" "[(''name'', PStr ''Ann'')]"
          ReadTimeout KeyboardInterrupt]
    by simp
  have d: "snd (snd (insert_or_update_document None [] (PStr ''7'')
             [(''name'', PStr ''Ann'')])) = Inr ()"
    using insert_or_update_document_swallows_exceptions
      [of None "[]" "PStr ''7''" "[(''name'', PStr ''Ann'')]"]
    by simp
  have e: "snd (snd (save_data_to_mongodb [(''id'', PInt 1)]
         \<lparr>pi_id = ''7'', pi_benefit_id = None, pi_phone_number = None, pi_email = None,
          pi_address = None\<rparr>
         (Inr (Some \<lparr>di_id = ''1'', di_person_id = ''7'', di_stage_status = Some PAID,
                     di_status = ''WON'', di_assigned_to = None, di_updated_at = None,
                     di_name = None\<rparr>))
         (Some (Exception DuplicateKeyError)) (Some (Exception (OtherException ''network'')))
         \<lparr>persons = [], deals = []\<rparr>)) = Inr ()"
    using insert_or_update_document_swallows_exceptions
      [of None "[]" PNone "[]" ReadTimeout CancelledError "[(''id'', PInt 1)]"
          "Some (Exception DuplicateKeyError)"
          "Some (Exception (OtherException ''network''))"]
    by simp
  from a b c d e show ?thesis by simp
qed

text \<open>
  The claim as it was stated fails when the task is cancelled while the write is awaited:
  \<open>asyncio.CancelledError\<close> is not an instance of \<open>Exception\<close>, neither handler takes it,
  nothing is logged, and it leaves \<open>insert_or_update_document\<close> and then
  \<open>save_data_to_mongodb\<close>.
\<close>

theorem cancelled_write_propagates:
  "insert_or_update_document (Some CancelledError) [] (PStr ''7'') [(''name'', PStr ''Ann'')]
     = ([], [], Inl CancelledError)
   \<and> save_data_to_mongodb [(''id'', PInt 1)]
         \<lparr>pi_id = ''7'', pi_benefit_id = None, pi_phone_number = None, pi_email = None,
          pi_address = None\<rparr>
         (Inr (Some \<lparr>di_id = ''1'', di_person_id = ''7'', di_stage_status = Some PAID,
                     di_status = ''WON'', di_assigned_to = None, di_updated_at = None,
                     di_name = None\<rparr>))
         (Some CancelledError) None
         \<lparr>persons = [], deals = []\<rparr>
     = (\<lparr>persons = [], deals = []\<rparr>, [], Inl CancelledError)"
  by (simp add: insert_or_update_document_def save_data_to_mongodb_def person_fields_def
        stage_status_dict_def to_dict_def description_def descriptions_def)

section \<open>Cleaning of sheet and store values\<close>

text \<open>
  C6.  \<open>clean_email\<close> trims its argument and gives the examples of the specification, but
  the pattern is matched against a prefix of the trimmed text only: an address followed by
  a second \<open>@\<close> is accepted and returned whole, where the claim demands one \<open>@\<close>.  So is
  the text that extraction stores for a person with two addresses.
\<close>

theorem clean_email_accepts_second_at:
  "clean_email (PStr '' a@b.com '') = Inr (Some ''a@b.com'')
   \<and> clean_email (PStr ''not-an-email'') = Inr None
   \<and> clean_email (PStr ''a@b.com@evil.org'') = Inr (Some ''a@b.com@evil.org'')
   \<and> clean_email (PStr ''a@b.com, c@d.com'') = Inr (Some ''a@b.com, c@d.com'')"
  by (simp add: strip_def is_space_def re_match_def email_regex_def)

text \<open>
  C7.  \<open>clean_benefit_id\<close> trims its argument and gives the examples of the
  specification, but when the trimmed text starts with \<open>PURL \<close> it removes every
  occurrence of \<open>PURL \<close>, not only the leading one: the rest of the text is changed.
\<close>

theorem clean_benefit_id_removes_every_purl:
  "clean_benefit_id ''PURL 12345'' = ''12345''
   \<and> clean_benefit_id '' 999 '' = ''999''
   \<and> clean_benefit_id ''PURL 12 PURL 34'' = ''12 34''"
  by (simp add: clean_benefit_id_def strip_def is_space_def startswith_def)

section \<open>Counting the pages\<close>

lemma bit_length_upper: "n < 2 ^ bit_length n"
proof (induction n rule: bit_length.induct)
  case (1 n)
  show ?case
  proof (cases "n = 0")
    case True
    then show ?thesis by (simp add: bit_length.simps)
  next
    case False
    with 1 have "n div 2 < 2 ^ bit_length (n div 2)" by simp
    then have "n < 2 * 2 ^ bit_length (n div 2)" by arith
    with False show ?thesis by (subst bit_length.simps) simp
  qed
qed







lemma bit_length_100: "bit_length 100 = 7"
  by (simp add: bit_length.simps)




lemma ceiling_div_100: "\<lceil>real_of_int t / 100\<rceil> = (t + 99) div 100"
proof -
  have "\<lceil>real_of_int t / real_of_int 100\<rceil> = - ((- t) div 100)"
    by (rule ceiling_divide_eq_div)
  then show ?thesis by simp
qed






text \<open>
  The bound of the theorem cannot be raised, because the quotient is a float: for the
  count 14073748835532801, the first after \<open>100 * 2 ^ 47\<close> that is not a multiple of 100,
  the quotient rounds to \<open>2 ^ 47\<close> and \<open>math.ceil(total_count / 100)\<close> is one less than
  the number of pages.
\<close>

lemma total_pages_rounding:
  "map_sum id math_ceil (true_divide 14073748835532801 100) = Inr 140737488355328
   \<and> \<lceil>real_of_int 14073748835532801 / 100\<rceil> = 140737488355329"
proof -
  have bl: "bit_length 14073748835532801 = 54"
    by (simp add: bit_length.simps)
  have td: "true_divide 14073748835532801 100 = Inr (Double 4503599627370496 (- 5))"
    by (simp add: true_divide_def double_exponent_def scaled_def round_half_even_def
          Let_def bl bit_length_100)
  have "map_sum id math_ceil (true_divide 14073748835532801 100) = Inr 140737488355328"
    by (simp add: td)
  moreover have "\<lceil>real_of_int 14073748835532801 / 100\<rceil> = 140737488355329"
    by (simp add: ceiling_div_100)
  ultimately show ?thesis by simp
qed

section \<open>Rows without a match\<close>

lemma mailers_search_data_length:
  "length (mailers_search_data sheet_data phone_data) = length sheet_data"
  by (induction sheet_data) simp_all

lemma mailers_miss:
  "i < length sheet_data \<Longrightarrow> phone_data (mr_phone_number (sheet_data ! i)) = None \<Longrightarrow>
   mailers_search_data sheet_data phone_data ! i =
     [(''row'', PInt (mr_row (sheet_data ! i))),
      (''benefit_id'', PStr ''N/A''),
      (''stage_status'', PStr ''N/A''),
      (''won/lost'', PStr ''N/A''),
      (''assigned_to'', PStr ''N/A''),
      (''name'', PStr ''N/A''),
      (''address'', PStr ''N/A''),
      (''email'', PStr ''N/A'')]"
proof (induction sheet_data arbitrary: i)
  case Nil
  then show ?case by simp
next
  case (Cons row_data sheet_data)
  show ?case
  proof (cases i)
    case 0
    with Cons.prems show ?thesis by (simp add: index_get_def)
  next
    case (Suc j)
    with Cons show ?thesis by simp
  qed
qed

lemma purls_miss:
  "i < length sheet_data \<Longrightarrow> benefit_data (PStr (pr_benefit_id (sheet_data ! i))) = None \<Longrightarrow>
   purls_search_data sheet_data benefit_data ! i =
     [(''row'', PInt (pr_row (sheet_data ! i))),
      (''phone_number'', PStr ''N/A''),
      (''email'', PStr ''N/A''),
      (''stage_status'', PStr ''N/A''),
      (''won/lost'', PStr ''N/A''),
      (''assigned_to'', PStr ''N/A''),
      (''name'', PStr ''N/A''),
      (''address'', PStr ''N/A'')]"
proof (induction sheet_data arbitrary: i)
  case Nil
  then show ?case by simp
next
  case (Cons row_data sheet_data)
  show ?case
  proof (cases i)
    case 0
    with Cons.prems show ?thesis by (simp add: index_get_def)
  next
    case (Suc j)
    with Cons show ?thesis by simp
  qed
qed

lemma index_hit_miss:
  "(\<forall>k. key = Some k \<longrightarrow> index k = None) \<Longrightarrow> index_hit key index = None"
  by (cases key) (simp_all add: index_hit_def)

lemma digisheet_miss:
  "i < length sheet_data \<Longrightarrow>
   (\<forall>k. dr_email (sheet_data ! i) = Some k \<longrightarrow> email_data k = None) \<Longrightarrow>
   (\<forall>k. dr_phone_number (sheet_data ! i) = Some k \<longrightarrow> phone_data k = None) \<Longrightarrow>
   digisheet_search_data sheet_data email_data phone_data ! i =
     [(''row'', PInt (dr_row (sheet_data ! i))),
      (''stage_status'', PStr ''N/A''),
      (''won/lost'', PStr ''N/A''),
      (''assigned_to'', PStr ''N/A'')]"
proof (induction sheet_data arbitrary: i)
  case Nil
  then show ?case by simp
next
  case (Cons row_data sheet_data)
  show ?case
  proof (cases i)
    case 0
    with Cons.prems have "index_hit (dr_email row_data) email_data = None"
      "index_hit (dr_phone_number row_data) phone_data = None"
      by (simp_all add: index_hit_miss)
    with 0 show ?thesis by (simp add: digisheet_match_def)
  next
    case (Suc j)
    with Cons show ?thesis by simp
  qed
qed

text \<open>
  C4.  In each of the three reconciliations, a processed row of the sheet whose key has no
  entry in the index of the store gives a result in which every output field is the
  text \<open>N/A\<close>; only the row number is the row's own.
\<close>

theorem unmatched_rows_give_not_available:
  "(i < length rows_m \<and> phone_index (mr_phone_number (rows_m ! i)) = None \<longrightarrow>
      mailers_search_data rows_m phone_index ! i =
        [(''row'', PInt (mr_row (rows_m ! i))),
         (''benefit_id'', PStr ''N/A''),
         (''stage_status'', PStr ''N/A''),
         (''won/lost'', PStr ''N/A''),
         (''assigned_to'', PStr ''N/A''),
         (''name'', PStr ''N/A''),
         (''address'', PStr ''N/A''),
         (''email'', PStr ''N/A'')])
   \<and> (j < length rows_p \<and> benefit_index (PStr (pr_benefit_id (rows_p ! j))) = None \<longrightarrow>
      purls_search_data rows_p benefit_index ! j =
        [(''row'', PInt (pr_row (rows_p ! j))),
         (''phone_number'', PStr ''N/A''),
         (''email'', PStr ''N/A''),
         (''stage_status'', PStr ''N/A''),
         (''won/lost'', PStr ''N/A''),
         (''assigned_to'', PStr ''N/A''),
         (''name'', PStr ''N/A''),
         (''address'', PStr ''N/A'')])
   \<and> (n < length rows_d
        \<and> (\<forall>k. dr_email (rows_d ! n) = Some k \<longrightarrow> email_index k = None)
        \<and> (\<forall>k. dr_phone_number (rows_d ! n) = Some k \<longrightarrow> phone_index_d k = None) \<longrightarrow>
      digisheet_search_data rows_d email_index phone_index_d ! n =
        [(''row'', PInt (dr_row (rows_d ! n))),
         (''stage_status'', PStr ''N/A''),
         (''won/lost'', PStr ''N/A''),
         (''assigned_to'', PStr ''N/A'')])"
  using mailers_miss [of i rows_m phone_index]
    purls_miss [of j rows_p benefit_index]
    digisheet_miss [of n rows_d email_index phone_index_d]
  by blast


theorem unmatched_rows_give_not_available_witness:
  "mailers_search_data [\<lparr>mr_row = 2, mr_phone_number = ''5551234567''\<rparr>] Map.empty ! 0 =
        [(''row'', PInt 2),
         (''benefit_id'', PStr ''N/A''),
         (''stage_status'', PStr ''N/A''),
         (''won/lost'', PStr ''N/A''),
         (''assigned_to'', PStr ''N/A''),
         (''name'', PStr ''N/A''),
         (''address'', PStr ''N/A''),
         (''email'', PStr ''N/A'')]
   \<and> purls_search_data [\<lparr>pr_row = 2, pr_benefit_id = ''777''\<rparr>] Map.empty ! 0 =
        [(''row'', PInt 2),
         (''phone_number'', PStr ''N/A''),
         (''email'', PStr ''N/A''),
         (''stage_status'', PStr ''N/A''),
         (''won/lost'', PStr ''N/A''),
         (''assigned_to'', PStr ''N/A''),
         (''name'', PStr ''N/A''),
         (''address'', PStr ''N/A'')]
   \<and> digisheet_search_data
        [\<lparr>dr_row = 2, dr_email = Some ''a@b.com'', dr_phone_number = None\<rparr>]
        Map.empty Map.empty ! 0 =
        [(''row'', PInt 2),
         (''stage_status'', PStr ''N/A''),
         (''won/lost'', PStr ''N/A''),
         (''assigned_to'', PStr ''N/A'')]"
  using unmatched_rows_give_not_available
    [of 0 "[\<lparr>mr_row = 2, mr_phone_number = ''5551234567''\<rparr>]" Map.empty
        0 "[\<lparr>pr_row = 2, pr_benefit_id = ''777''\<rparr>]" Map.empty
        0 "[\<lparr>dr_row = 2, dr_email = Some ''a@b.com'', dr_phone_number = None\<rparr>]"
        Map.empty Map.empty]
  by simp


section \<open>The outcome field in purls.py\<close>

lemma map_of_dict_set:
  "map_of (dict_set d k v) k' = (if k' = k then Some v else map_of d k')"
  by (induction d k v rule: dict_set.induct) auto

lemma map_of_set_fields:
  "map_of (set_fields doc upd) k =
     (case map_of (rev upd) k of Some v \<Rightarrow> Some v | None \<Rightarrow> map_of doc k)"
  unfolding set_fields_def
proof (induction upd arbitrary: doc)
  case Nil
  then show ?case by simp
next
  case (Cons kv upd)
  show ?case
    by (cases kv) (auto simp: Cons.IH map_of_dict_set map_of_append split: option.splits)
qed

lemma dict_set_nonempty: "dict_set d k v \<noteq> []"
  by (cases d) (auto split: if_splits)

lemma set_fields_nonempty: "doc \<noteq> [] \<Longrightarrow> set_fields doc upd \<noteq> []"
  unfolding set_fields_def
  by (induction upd arbitrary: doc) (simp_all add: dict_set_nonempty)

lemma update_first_docs:
  "update_first coll ident upd = Some coll' \<Longrightarrow> doc' \<in> set coll' \<Longrightarrow>
   doc' \<in> set coll \<or> (\<exists>doc \<in> set coll. doc' = set_fields doc upd)"
proof (induction coll arbitrary: coll')
  case Nil
  then show ?case by simp
next
  case (Cons d coll)
  show ?case
  proof (cases "map_of d ''_id'' = Some ident")
    case True
    with Cons.prems show ?thesis by auto
  next
    case False
    with Cons.prems obtain c where c: "update_first coll ident upd = Some c" "coll' = d # c"
      by auto
    with Cons.prems(2) have "doc' = d \<or> doc' \<in> set c" by simp
    then show ?thesis
    proof
      assume "doc' = d"
      then show ?thesis by simp
    next
      assume "doc' \<in> set c"
      with Cons.IH [OF c(1)] show ?thesis by auto
    qed
  qed
qed

lemma insert_docs:
  assumes "insert_or_update_document fault coll ident upd = (coll', lg, r)"
    and "doc' \<in> set coll'"
  shows "doc' \<in> set coll \<or> (\<exists>doc \<in> set coll. doc' = set_fields doc upd)
         \<or> doc' = set_fields [(''_id'', ident)] upd"
proof (cases fault)
  case None
  show ?thesis
  proof (cases "update_first coll ident upd")
    case N: None
    with None assms(1) have "coll' = coll @ [set_fields [(''_id'', ident)] upd]"
      by (auto simp: insert_or_update_document_def update_one_def split: if_splits)
    with assms(2) show ?thesis by auto
  next
    case (Some c)
    with None assms(1) have "coll' = c"
      by (auto simp: insert_or_update_document_def update_one_def split: if_splits)
    with Some assms(2) update_first_docs show ?thesis by blast
  qed
next
  case (Some b)
  with assms(1) have "coll' = coll"
    by (cases b) (auto simp: insert_or_update_document_def split: if_splits)
  with assms(2) show ?thesis by simp
qed

lemma person_fields_keys:
  assumes "person_fields data person_info deal_info = Inr info"
  shows "map_of (rev info) ''won/lost'' = None
         \<and> map_of (rev info) ''won_lost'' = Some (PStr (di_status deal_info))"
proof -
  obtain st where "stage_status_dict (di_stage_status deal_info) = Inr st"
    using stage_status_dict_total by blast
  with assms show ?thesis by (auto simp: person_fields_def)
qed

lemma written_docs:
  "written_by_extraction coll \<Longrightarrow> doc \<in> set coll \<Longrightarrow>
   doc \<noteq> [] \<and> map_of doc ''won/lost'' = None \<and> (\<exists>st. map_of doc ''won_lost'' = Some (PStr st))"
proof (induction arbitrary: doc rule: written_by_extraction.induct)
  case empty_collection
  then show ?case by simp
next
  case (person_write coll data person_info deal_info info fault coll' lg r)
  note keys = person_fields_keys [OF person_write.hyps(2)]
  from insert_docs [OF person_write.hyps(3) person_write.prems]
  consider "doc \<in> set coll"
    | d where "d \<in> set coll" "doc = set_fields d info"
    | "doc = set_fields [(''_id'', PStr (pi_id person_info))] info"
    by blast
  then show ?case
  proof cases
    case 1
    then show ?thesis by (rule person_write.IH)
  next
    case 2
    from person_write.IH [OF 2(1)] have d: "d \<noteq> []" "map_of d ''won/lost'' = None" by simp_all
    show ?thesis
      using d keys by (simp add: 2(2) set_fields_nonempty map_of_set_fields)
  next
    case 3
    show ?thesis
      using keys by (simp add: 3 set_fields_nonempty map_of_set_fields)
  qed
qed

lemma purls_load_loop_ran:
  "purls_load_loop docs benefit_dict = Inr benefit_data \<Longrightarrow> benefit_data k = Some doc \<Longrightarrow>
   doc \<in> set docs \<or> benefit_dict k = Some doc"
proof (induction docs arbitrary: benefit_dict)
  case Nil
  then show ?case by simp
next
  case (Cons d docs)
  show ?case
  proof (cases "truthy (dict_get d ''benefit_id'' (PStr []))")
    case False
    with Cons.prems have "purls_load_loop docs benefit_dict = Inr benefit_data" by simp
    from Cons.IH [OF this Cons.prems(2)] show ?thesis by auto
  next
    case True
    with Cons.prems(1)
    have "purls_load_loop docs (benefit_dict(dict_get d ''benefit_id'' (PStr []) \<mapsto> d))
            = Inr benefit_data"
      by (cases "dict_get d ''benefit_id'' (PStr [])") (simp_all add: Let_def)
    from Cons.IH [OF this Cons.prems(2)] show ?thesis
      by (auto split: if_splits)
  qed
qed

lemma purls_hit:
  "i < length sheet_data \<Longrightarrow>
   benefit_data (PStr (pr_benefit_id (sheet_data ! i))) = Some doc \<Longrightarrow> doc \<noteq> [] \<Longrightarrow>
   map_of (purls_search_data sheet_data benefit_data ! i) ''won/lost''
     = Some (extract_description (dict_get doc ''won/lost'' (PStr [])))"
proof (induction sheet_data arbitrary: i)
  case Nil
  then show ?case by simp
next
  case (Cons row_data sheet_data)
  show ?case
  proof (cases i)
    case 0
    with Cons.prems show ?thesis by (simp add: index_get_def)
  next
    case (Suc j)
    with Cons show ?thesis by simp
  qed
qed

text \<open>
  C9.  Take a person collection written by extraction, the index that purls.py loads
  from it, and a processed row whose benefit id is a key of the index.  The result for
  the row has the empty text in its field \<open>won/lost\<close>: the matched document holds the
  outcome of the deal under the key \<open>won_lost\<close>, and \<open>search_data\<close> reads the key
  \<open>won/lost\<close>, which no such document has.
\<close>

theorem purls_never_emits_stored_outcome:
  assumes "written_by_extraction collection"
    and "purls_load_mongodb_data collection = Inr benefit_data"
    and "i < length sheet_data"
    and "benefit_data (PStr (pr_benefit_id (sheet_data ! i))) = Some doc"
  shows "map_of (purls_search_data sheet_data benefit_data ! i) ''won/lost'' = Some (PStr [])
         \<and> (\<exists>outcome. map_of doc ''won_lost'' = Some (PStr outcome))"
proof -
  have "doc \<in> set collection"
    using purls_load_loop_ran [of collection Map.empty benefit_data _ doc] assms(2,4)
    by (simp add: purls_load_mongodb_data_def)
  with assms(1) have d: "doc \<noteq> []" "map_of doc ''won/lost'' = None"
    "\<exists>st. map_of doc ''won_lost'' = Some (PStr st)"
    using written_docs by blast+
  have "map_of (purls_search_data sheet_data benefit_data ! i) ''won/lost''
     = Some (extract_description (dict_get doc ''won/lost'' (PStr [])))"
    using assms(3,4) d(1) by (rule purls_hit)
  with d show ?thesis by (simp add: dict_get_def extract_description_def)
qed


section \<open>Stored timestamps that do not parse\<close>






section \<open>The latest document wins in the indexes of digisheet.py\<close>

lemma index_update_other:
  "key \<noteq> Some k \<Longrightarrow> index_update index key doc t k = index k"
  by (auto simp: index_update_def split: option.splits)

lemma index_update_same:
  "k \<noteq> [] \<Longrightarrow> index_update index (Some k) doc t k =
     (case index k of
        None \<Rightarrow> Some \<lparr>ie_data = doc, ie_updated_at = t\<rparr>
      | Some old \<Rightarrow>
          if ie_updated_at old < t then Some \<lparr>ie_data = doc, ie_updated_at = t\<rparr>
          else Some old)"
  by (auto simp: index_update_def split: option.splits)

lemma index_update_grows:
  assumes "index k = Some e"
  shows "\<exists>e'. index_update index key doc t k = Some e' \<and> ie_updated_at e \<le> ie_updated_at e'"
proof (cases "key = Some k \<and> k \<noteq> []")
  case True
  then show ?thesis using assms by (auto simp: index_update_same)
next
  case False
  then have "index_update index key doc t k = index k"
    by (auto simp: index_update_def split: option.splits)
  with assms show ?thesis by simp
qed

lemma index_update_covers:
  assumes "k \<noteq> []"
  shows "\<exists>e'. index_update index (Some k) doc t k = Some e' \<and> t \<le> ie_updated_at e'"
  using assms by (auto simp: index_update_same split: option.splits)

lemma index_update_origin:
  assumes "index_update index key doc t k = Some e'"
  shows "index k = Some e' \<or> (key = Some k \<and> e' = \<lparr>ie_data = doc, ie_updated_at = t\<rparr>)"
  using assms by (auto simp: index_update_def split: option.splits if_splits)

lemma fold_index_grows:
  fixes kf :: "pydict \<Rightarrow> string option" and tf :: "pydict \<Rightarrow> datetime"
  assumes "index k = Some e"
  shows "\<exists>e'. foldl (\<lambda>idx d. index_update idx (kf d) d (tf d)) index docs k = Some e'
            \<and> ie_updated_at e \<le> ie_updated_at e'"
  using assms
proof (induction docs arbitrary: index e)
  case Nil
  then show ?case by simp
next
  case (Cons d docs)
  obtain e1 where e1: "index_update index (kf d) d (tf d) k = Some e1"
      "ie_updated_at e \<le> ie_updated_at e1"
    using index_update_grows [where index = index and k = k and e = e] Cons.prems by blast
  obtain e' where "foldl (\<lambda>idx d. index_update idx (kf d) d (tf d))
        (index_update index (kf d) d (tf d)) docs k = Some e'"
      "ie_updated_at e1 \<le> ie_updated_at e'"
    using Cons.IH [where index = "index_update index (kf d) d (tf d)" and e = e1] e1(1)
    by blast
  with e1(2) show ?case by auto
qed

lemma fold_index_covers:
  fixes kf :: "pydict \<Rightarrow> string option" and tf :: "pydict \<Rightarrow> datetime"
  assumes "k \<noteq> []" "d \<in> set docs" "kf d = Some k"
  shows "\<exists>e'. foldl (\<lambda>idx d. index_update idx (kf d) d (tf d)) index docs k = Some e'
            \<and> tf d \<le> ie_updated_at e'"
  using assms(2)
proof (induction docs arbitrary: index)
  case Nil
  then show ?case by simp
next
  case (Cons x docs)
  show ?case
  proof (cases "d \<in> set docs")
    case True
    then show ?thesis using Cons.IH by simp
  next
    case False
    with Cons.prems have x: "x = d" by simp
    obtain e1 where e1: "index_update index (kf d) d (tf d) k = Some e1"
        "tf d \<le> ie_updated_at e1"
      using index_update_covers [where k = k and index = index and doc = d and t = "tf d"]
        assms(1,3) by auto
    obtain e' where "foldl (\<lambda>idx d. index_update idx (kf d) d (tf d))
        (index_update index (kf d) d (tf d)) docs k = Some e'"
        "ie_updated_at e1 \<le> ie_updated_at e'"
      using fold_index_grows [where index = "index_update index (kf d) d (tf d)" and k = k
          and e = e1 and kf = kf and tf = tf and docs = docs] e1(1)
      by blast
    with e1(2) x show ?thesis by auto
  qed
qed

lemma fold_index_origin:
  fixes kf :: "pydict \<Rightarrow> string option" and tf :: "pydict \<Rightarrow> datetime"
  assumes "foldl (\<lambda>idx d. index_update idx (kf d) d (tf d)) index docs k = Some e'"
  shows "index k = Some e'
         \<or> (ie_data e' \<in> set docs \<and> kf (ie_data e') = Some k \<and> tf (ie_data e') = ie_updated_at e')"
  using assms
proof (induction docs arbitrary: index)
  case Nil
  then show ?case by simp
next
  case (Cons x docs)
  from Cons.IH [of "index_update index (kf x) x (tf x)"] Cons.prems
  have "index_update index (kf x) x (tf x) k = Some e'
        \<or> (ie_data e' \<in> set docs \<and> kf (ie_data e') = Some k \<and> tf (ie_data e') = ie_updated_at e')"
    by simp
  then show ?case
  proof
    assume "index_update index (kf x) x (tf x) k = Some e'"
    from index_update_origin [OF this] show ?thesis by auto
  next
    assume "ie_data e' \<in> set docs \<and> kf (ie_data e') = Some k \<and> tf (ie_data e') = ie_updated_at e'"
    then show ?thesis by simp
  qed
qed

lemma fold_index_latest:
  fixes kf :: "pydict \<Rightarrow> string option" and tf :: "pydict \<Rightarrow> datetime"
  assumes k: "k \<noteq> []"
    and d1: "d1 \<in> set docs" "kf d1 = Some k"
    and d2: "d2 \<in> set docs" "kf d2 = Some k"
    and lt: "tf d1 < tf d2"
  shows "\<exists>e. foldl (\<lambda>idx d. index_update idx (kf d) d (tf d)) Map.empty docs k = Some e
           \<and> tf d2 \<le> ie_updated_at e \<and> ie_data e \<noteq> d1
           \<and> ((\<forall>d \<in> set docs. d \<noteq> d2 \<and> kf d = Some k \<longrightarrow> tf d < tf d2)
                \<longrightarrow> e = \<lparr>ie_data = d2, ie_updated_at = tf d2\<rparr>)"
proof -
  obtain e where e: "foldl (\<lambda>idx d. index_update idx (kf d) d (tf d)) Map.empty docs k = Some e"
      "tf d2 \<le> ie_updated_at e"
    using fold_index_covers [where k = k and d = d2 and docs = docs and kf = kf and tf = tf
        and index = Map.empty] k d2
    by blast
  from fold_index_origin [where kf = kf and tf = tf and index = Map.empty and docs = docs
      and k = k and e' = e] e(1)
  have o: "ie_data e \<in> set docs" "kf (ie_data e) = Some k" "tf (ie_data e) = ie_updated_at e"
    by simp_all
  have n1: "ie_data e \<noteq> d1"
  proof
    assume "ie_data e = d1"
    with o(3) e(2) lt show False by simp
  qed
  have u: "e = \<lparr>ie_data = d2, ie_updated_at = tf d2\<rparr>"
    if "\<forall>d \<in> set docs. d \<noteq> d2 \<and> kf d = Some k \<longrightarrow> tf d < tf d2"
  proof -
    have "ie_data e = d2"
    proof (rule ccontr)
      assume "ie_data e \<noteq> d2"
      with that o have "tf (ie_data e) < tf d2" by blast
      with o(3) e(2) show False by simp
    qed
    with o(3) show ?thesis by (cases e) simp
  qed
  from e n1 u show ?thesis by blast
qed


lemma digisheet_load_loop_succeeds_iff:
  "\<not> isl (digisheet_load_loop docs email_dict phone_dict) \<longleftrightarrow>
   (\<forall>d \<in> set docs.
      \<not> isl (clean_email (dict_get d ''email'' PNone))
    \<and> \<not> isl (clean_phone (dict_get d ''phone_number'' PNone))
    \<and> \<not> isl (strptime (dict_get d ''updated_at'' (PStr []))))"
proof (induction docs arbitrary: email_dict phone_dict)
  case Nil
  then show ?case by simp
next
  case (Cons d docs)
  show ?case
    by (cases "clean_email (dict_get d ''email'' PNone)";
        cases "clean_phone (dict_get d ''phone_number'' PNone)";
        cases "strptime (dict_get d ''updated_at'' (PStr []))")
       (simp_all add: Cons.IH)
qed

lemma digisheet_load_loop_fold:
  "digisheet_load_loop docs email_dict phone_dict = Inr (email_data, phone_data) \<Longrightarrow>
     email_data =
       foldl (\<lambda>idx d. index_update idx (email_key d) d (the (parsed_updated_at d)))
         email_dict docs
   \<and> phone_data =
       foldl (\<lambda>idx d. index_update idx (phone_key d) d (the (parsed_updated_at d)))
         phone_dict docs"
proof (induction docs arbitrary: email_dict phone_dict)
  case Nil
  then show ?case by simp
next
  case (Cons d docs)
  from Cons.prems obtain em ph t where p:
      "clean_email (dict_get d ''email'' PNone) = Inr em"
      "clean_phone (dict_get d ''phone_number'' PNone) = Inr ph"
      "strptime (dict_get d ''updated_at'' (PStr [])) = Inr t"
    by (auto split: sum.splits)
  then have k: "email_key d = em" "phone_key d = ph" "the (parsed_updated_at d) = t"
    by (simp_all add: email_key_def phone_key_def parsed_updated_at_def)
  from Cons.prems p
  have "digisheet_load_loop docs (index_update email_dict em d t) (index_update phone_dict ph d t)
          = Inr (email_data, phone_data)"
    by simp
  from Cons.IH [OF this] show ?case by (simp add: k)
qed

lemma email_key_nonempty: "email_key d = Some k \<Longrightarrow> k \<noteq> []"
proof -
  have e: "re_match email_regex [] = None"
    by (simp add: re_match_def email_regex_def)
  assume "email_key d = Some k"
  then show ?thesis
    using e
    by (cases "dict_get d ''email'' PNone")
       (auto simp: email_key_def Let_def split: if_splits)
qed

lemma phone_key_nonempty: "phone_key d = Some k \<Longrightarrow> k \<noteq> []"
  by (cases "dict_get d ''phone_number'' PNone")
     (auto simp: phone_key_def Let_def split: if_splits)

text \<open>
  C5.  Let the store hold two documents \<open>d1\<close> and \<open>d2\<close> with the same cleaned email key
  (or the same cleaned phone key) \<open>k\<close>, \<open>d2\<close> with the later parsed \<open>updated_at\<close>.  Then,
  in whatever order \<open>docs'\<close> the documents of the store are iterated, the email index (or
  the phone index) has an entry for \<open>k\<close>; the entry is at least as late as \<open>d2\<close> and is
  never \<open>d1\<close>; and it is \<open>d2\<close> with its timestamp whenever every other document with the
  key \<open>k\<close> is earlier than \<open>d2\<close>, as it is when \<open>d1\<close> and \<open>d2\<close> are the only two.
\<close>

theorem digisheet_index_keeps_latest:
  assumes load: "digisheet_load_mongodb_data docs = Inr (email_dict, phone_dict)"
    and d1: "d1 \<in> set docs" and d2: "d2 \<in> set docs"
    and t1: "parsed_updated_at d1 = Some t1" and t2: "parsed_updated_at d2 = Some t2"
    and lt: "t1 < t2"
    and order: "set docs' = set docs"
  shows "\<exists>email_data phone_data.
      digisheet_load_mongodb_data docs' = Inr (email_data, phone_data)
    \<and> (email_key d1 = Some k \<and> email_key d2 = Some k \<longrightarrow>
         (\<exists>e. email_data k = Some e \<and> t2 \<le> ie_updated_at e \<and> ie_data e \<noteq> d1
            \<and> ((\<forall>d \<in> set docs. d \<noteq> d2 \<and> email_key d = Some k \<longrightarrow>
                    (\<exists>t. parsed_updated_at d = Some t \<and> t < t2))
                 \<longrightarrow> e = \<lparr>ie_data = d2, ie_updated_at = t2\<rparr>)))
    \<and> (phone_key d1 = Some k \<and> phone_key d2 = Some k \<longrightarrow>
         (\<exists>e. phone_data k = Some e \<and> t2 \<le> ie_updated_at e \<and> ie_data e \<noteq> d1
            \<and> ((\<forall>d \<in> set docs. d \<noteq> d2 \<and> phone_key d = Some k \<longrightarrow>
                    (\<exists>t. parsed_updated_at d = Some t \<and> t < t2))
                 \<longrightarrow> e = \<lparr>ie_data = d2, ie_updated_at = t2\<rparr>)))"
proof -
  have "\<not> isl (digisheet_load_loop docs Map.empty Map.empty)"
    using load by (simp add: digisheet_load_mongodb_data_def)
  then have "\<not> isl (digisheet_load_loop docs' Map.empty Map.empty)"
    unfolding digisheet_load_loop_succeeds_iff order .
  then obtain email_data phone_data where
    l: "digisheet_load_loop docs' Map.empty Map.empty = Inr (email_data, phone_data)"
    by (cases "digisheet_load_loop docs' Map.empty Map.empty") auto
  note f = digisheet_load_loop_fold [OF l]
  define tf where "tf = (\<lambda>d. the (parsed_updated_at d))"
  have tf: "tf d1 < tf d2" "tf d2 = t2" using t1 t2 lt by (simp_all add: tf_def)
  have m: "d1 \<in> set docs'" "d2 \<in> set docs'" using d1 d2 order by simp_all
  have earlier: "\<forall>d \<in> set docs'. d \<noteq> d2 \<and> kf d = Some k \<longrightarrow> tf d < tf d2"
    if "\<forall>d \<in> set docs. d \<noteq> d2 \<and> kf d = Some k \<longrightarrow> (\<exists>t. parsed_updated_at d = Some t \<and> t < t2)"
    for kf :: "pydict \<Rightarrow> string option"
    using that tf(2) order by (auto simp: tf_def)
  have part: "\<exists>e. foldl (\<lambda>idx d. index_update idx (kf d) d (tf d)) Map.empty docs' k = Some e
           \<and> t2 \<le> ie_updated_at e \<and> ie_data e \<noteq> d1
           \<and> ((\<forall>d \<in> set docs. d \<noteq> d2 \<and> kf d = Some k \<longrightarrow>
                    (\<exists>t. parsed_updated_at d = Some t \<and> t < t2))
                \<longrightarrow> e = \<lparr>ie_data = d2, ie_updated_at = t2\<rparr>)"
    if "k \<noteq> []" "kf d1 = Some k" "kf d2 = Some k"
    for kf :: "pydict \<Rightarrow> string option"
    using fold_index_latest [where k = k and ?d1.0 = d1 and ?d2.0 = d2 and docs = docs'
        and kf = kf and tf = tf] that m tf earlier [of kf]
    by auto
  have email: "\<exists>e. email_data k = Some e \<and> t2 \<le> ie_updated_at e \<and> ie_data e \<noteq> d1
            \<and> ((\<forall>d \<in> set docs. d \<noteq> d2 \<and> email_key d = Some k \<longrightarrow>
                    (\<exists>t. parsed_updated_at d = Some t \<and> t < t2))
                 \<longrightarrow> e = \<lparr>ie_data = d2, ie_updated_at = t2\<rparr>)"
    if "email_key d1 = Some k \<and> email_key d2 = Some k"
    using part [of email_key] that email_key_nonempty [of d1 k] f by (simp add: tf_def)
  have phone: "\<exists>e. phone_data k = Some e \<and> t2 \<le> ie_updated_at e \<and> ie_data e \<noteq> d1
            \<and> ((\<forall>d \<in> set docs. d \<noteq> d2 \<and> phone_key d = Some k \<longrightarrow>
                    (\<exists>t. parsed_updated_at d = Some t \<and> t < t2))
                 \<longrightarrow> e = \<lparr>ie_data = d2, ie_updated_at = t2\<rparr>)"
    if "phone_key d1 = Some k \<and> phone_key d2 = Some k"
    using part [of phone_key] that phone_key_nonempty [of d1 k] f by (simp add: tf_def)
  from l email phone show ?thesis
    unfolding digisheet_load_mongodb_data_def by blast
qed


section \<open>The theorems on the example data\<close>

lemma example_written: "written_by_extraction [example_document]"
proof -
  have p: "person_fields [(''id'', PInt 1), (''update_time'', PStr ''2024-01-05 10:00:00'')]
             example_person example_deal = Inr (tl example_document)"
    by (simp add: person_fields_def stage_status_dict_def to_dict_def description_def
          descriptions_def example_person_def example_deal_def example_document_def
          opt_str_def dict_get_def)
  have i: "insert_or_update_document None [] (PStr (pi_id example_person)) (tl example_document)
             = ([example_document], [(INFO, ''Inserted new document'')], Inr ())"
    by (simp add: insert_or_update_document_def update_one_def set_fields_def
          example_person_def example_document_def)
  from empty_collection p i show ?thesis by (rule person_write)
qed

theorem purls_never_emits_stored_outcome_witness:
  "map_of (purls_search_data [\<lparr>pr_row = 2, pr_benefit_id = ''777''\<rparr>]
             (Map.empty(PStr ''777'' \<mapsto> example_document)) ! 0) ''won/lost'' = Some (PStr [])
   \<and> map_of example_document ''won_lost'' = Some (PStr ''WON'')"
proof -
  have l: "purls_load_mongodb_data [example_document]
             = Inr (Map.empty(PStr ''777'' \<mapsto> example_document))"
    by (simp add: purls_load_mongodb_data_def example_document_def dict_get_def Let_def)
  have "map_of (purls_search_data [\<lparr>pr_row = 2, pr_benefit_id = ''777''\<rparr>]
             (Map.empty(PStr ''777'' \<mapsto> example_document)) ! 0) ''won/lost'' = Some (PStr [])"
    using purls_never_emits_stored_outcome [OF example_written l, of 0
        "[\<lparr>pr_row = 2, pr_benefit_id = ''777''\<rparr>]" example_document]
    by simp
  moreover have "map_of example_document ''won_lost'' = Some (PStr ''WON'')"
    by (simp add: example_document_def)
  ultimately show ?thesis by simp
qed

lemmas strptime_defs =
  strptime_def re_match_def strptime_regex_def directive_Y_def directive_m_def
  directive_d_def directive_H_def directive_M_def directive_S_def two_def
  is_digit_def is_space_def group_int_def days_in_month_def


lemma early_document_fields:
  "clean_email (dict_get early_document ''email'' PNone) = Inr (Some ''a@b.com'')"
  "clean_phone (dict_get early_document ''phone_number'' PNone) = Inr (Some ''5551234567'')"
  "strptime (dict_get early_document ''updated_at'' (PStr [])) = Inr (2024, 1, 5, 10, 0, 0)"
  by (simp_all add: early_document_def dict_get_def strip_def is_space_def is_digit_def
        re_match_def email_regex_def strptime_defs)

lemma late_document_fields:
  "clean_email (dict_get late_document ''email'' PNone) = Inr (Some ''a@b.com'')"
  "clean_phone (dict_get late_document ''phone_number'' PNone) = Inr (Some ''5551234567'')"
  "strptime (dict_get late_document ''updated_at'' (PStr [])) = Inr (2024, 3, 1, 9, 30, 0)"
  by (simp_all add: late_document_def dict_get_def strip_def is_space_def is_digit_def
        re_match_def email_regex_def strptime_defs)




theorem digisheet_index_keeps_latest_witness:
  "(case digisheet_load_mongodb_data [late_document, early_document] of
      Inl e \<Rightarrow> False
    | Inr (email_data, phone_data) \<Rightarrow>
        email_data ''a@b.com'' =
          Some \<lparr>ie_data = late_document, ie_updated_at = (2024, 3, 1, 9, 30, 0)\<rparr>)
   \<and> (case digisheet_load_mongodb_data [early_document, late_document] of
      Inl e \<Rightarrow> False
    | Inr (email_data, phone_data) \<Rightarrow>
        email_data ''a@b.com'' =
          Some \<lparr>ie_data = late_document, ie_updated_at = (2024, 3, 1, 9, 30, 0)\<rparr>)
   \<and> (case digisheet_load_mongodb_data [early_document, late_document] of
      Inl e \<Rightarrow> False
    | Inr (email_data, phone_data) \<Rightarrow>
        phone_data ''5551234567'' =
          Some \<lparr>ie_data = late_document, ie_updated_at = (2024, 3, 1, 9, 30, 0)\<rparr>)"
proof -
  have k: "email_key early_document = Some ''a@b.com'' \<and> email_key late_document = Some ''a@b.com''"
    by (simp add: email_key_def early_document_fields late_document_fields)
  have kp: "phone_key early_document = Some ''5551234567''
      \<and> phone_key late_document = Some ''5551234567''"
    by (simp add: phone_key_def early_document_fields late_document_fields)
  have t: "parsed_updated_at early_document = Some (2024, 1, 5, 10, 0, 0)"
    "parsed_updated_at late_document = Some (2024, 3, 1, 9, 30, 0)"
    by (simp_all add: parsed_updated_at_def early_document_fields late_document_fields)
  have lt: "((2024, 1, 5, 10, 0, 0) :: datetime) < (2024, 3, 1, 9, 30, 0)"
    by simp
  obtain ed pd where
    l: "digisheet_load_mongodb_data [late_document, early_document] = Inr (ed, pd)"
    by (simp add: digisheet_load_mongodb_data_def early_document_fields late_document_fields)
  have m: "early_document \<in> set [late_document, early_document]"
    "late_document \<in> set [late_document, early_document]"
    by simp_all
  have u: "\<forall>d \<in> set [late_document, early_document].
             d \<noteq> late_document \<and> email_key d = Some ''a@b.com'' \<longrightarrow>
             (\<exists>t. parsed_updated_at d = Some t \<and> t < (2024, 3, 1, 9, 30, 0))"
    using t(1) lt by auto
  have up: "\<forall>d \<in> set [late_document, early_document].
             d \<noteq> late_document \<and> phone_key d = Some ''5551234567'' \<longrightarrow>
             (\<exists>t. parsed_updated_at d = Some t \<and> t < (2024, 3, 1, 9, 30, 0))"
    using t(1) lt by auto
  have main: "case digisheet_load_mongodb_data docs' of
      Inl e \<Rightarrow> False
    | Inr (email_data, phone_data) \<Rightarrow>
        email_data ''a@b.com'' =
          Some \<lparr>ie_data = late_document, ie_updated_at = (2024, 3, 1, 9, 30, 0)\<rparr>"
    if s: "set docs' = set [late_document, early_document]" for docs'
  proof -
    from digisheet_index_keeps_latest [OF l m t lt s, of "''a@b.com''"]
    obtain email_data phone_data where
      r: "digisheet_load_mongodb_data docs' = Inr (email_data, phone_data)"
      and i: "email_key early_document = Some ''a@b.com'' \<and> email_key late_document = Some ''a@b.com''
        \<longrightarrow> (\<exists>e. email_data ''a@b.com'' = Some e \<and> (2024, 3, 1, 9, 30, 0) \<le> ie_updated_at e
              \<and> ie_data e \<noteq> early_document
              \<and> ((\<forall>d \<in> set [late_document, early_document].
                     d \<noteq> late_document \<and> email_key d = Some ''a@b.com'' \<longrightarrow>
                     (\<exists>t. parsed_updated_at d = Some t \<and> t < (2024, 3, 1, 9, 30, 0)))
                  \<longrightarrow> e = \<lparr>ie_data = late_document, ie_updated_at = (2024, 3, 1, 9, 30, 0)\<rparr>))"
      by blast
    from i k u have "email_data ''a@b.com'' =
          Some \<lparr>ie_data = late_document, ie_updated_at = (2024, 3, 1, 9, 30, 0)\<rparr>"
      by blast
    with r show ?thesis by simp
  qed
  have phone: "case digisheet_load_mongodb_data docs' of
      Inl e \<Rightarrow> False
    | Inr (email_data, phone_data) \<Rightarrow>
        phone_data ''5551234567'' =
          Some \<lparr>ie_data = late_document, ie_updated_at = (2024, 3, 1, 9, 30, 0)\<rparr>"
    if s: "set docs' = set [late_document, early_document]" for docs'
  proof -
    from digisheet_index_keeps_latest [OF l m t lt s, of "''5551234567''"]
    obtain email_data phone_data where
      r: "digisheet_load_mongodb_data docs' = Inr (email_data, phone_data)"
      and i: "phone_key early_document = Some ''5551234567''
          \<and> phone_key late_document = Some ''5551234567''
        \<longrightarrow> (\<exists>e. phone_data ''5551234567'' = Some e \<and> (2024, 3, 1, 9, 30, 0) \<le> ie_updated_at e
              \<and> ie_data e \<noteq> early_document
              \<and> ((\<forall>d \<in> set [late_document, early_document].
                     d \<noteq> late_document \<and> phone_key d = Some ''5551234567'' \<longrightarrow>
                     (\<exists>t. parsed_updated_at d = Some t \<and> t < (2024, 3, 1, 9, 30, 0)))
                  \<longrightarrow> e = \<lparr>ie_data = late_document, ie_updated_at = (2024, 3, 1, 9, 30, 0)\<rparr>))"
      by blast
    from i kp up have "phone_data ''5551234567'' =
          Some \<lparr>ie_data = late_document, ie_updated_at = (2024, 3, 1, 9, 30, 0)\<rparr>"
      by blast
    with r show ?thesis by simp
  qed
  have "set [early_document, late_document] = set [late_document, early_document]"
    by auto
  with main [of "[late_document, early_document]"] main [of "[early_document, late_document]"]
    phone [of "[early_document, late_document]"]
  show ?thesis by simp
qed


end
